theory Spec2Isabelle
  imports Main
begin

section \<open>Google SSO service (google-sso.service.ts)\<close>

subsection \<open>Exceptions and enums\<close>

text \<open>
  Every exception class the service names, \<open>TypeError\<close> for a property read on
  \<open>null\<close>, and \<open>OtherError\<close> for whatever else a collaborator may throw
  (a database or transport error).
\<close>

datatype exn =
    ExpiredRefreshTokenException
  | GoogleAuthFailedException
  | InvalidRefreshTokenException
  | UnexpectedErrorWhenLoggingOutException
  | UnexpectedErrorWhenRefreshingAccessTokenException
  | UserNotFoundException
  | TypeError
  | OtherError string

datatype AuthenticationEventType = Login | Registration

datatype AuthenticationMethod = GoogleSSO | OtherMethod

datatype AuthenticationStatus = Success | Failure

datatype AuthenticationLogErrorMessages = UnexpectedErrorWhenAttemptingGoogleSso

subsection \<open>Data\<close>

type_synonym UserRequestInfoDto = string

type_synonym json_object = "(string \<times> string) list"

record User =
  user_id :: nat
  user_email :: string

record RefreshToken =
  rt_id :: nat
  rt_user_id :: nat
  token :: string
  rt_method :: AuthenticationMethod
  expires_on :: int
  last_used_on :: "int option"
  is_active :: bool

record GoogleUserDto =
  email :: string
  emailVerified :: bool
  other_fields :: json_object

record GoogleSsoJwtDecodedPayload =
  payload_email :: string
  email_verified :: bool
  payload_fields :: json_object

record TokenSet =
  access_token :: "string option"
  refresh_token :: "string option"
  id_token :: "string option"

record AuthTokens =
  tokens_accessToken :: string
  tokens_refreshToken :: "string option"

record AuthenticationEvent =
  ev_user_id :: "nat option"
  ev_type :: AuthenticationEventType
  ev_method :: AuthenticationMethod
  ev_status :: AuthenticationStatus
  ev_request_info :: UserRequestInfoDto
  ev_error :: "AuthenticationLogErrorMessages option"
  ev_refresh_token_id :: "nat option"

text \<open>
  The persistent state behind the injected services: the user table, the refresh-token
  table, the verification flags, the Google linkage rows, the authentication log, the
  verification emails handed to the email gateway, and the tokens sent to the identity
  provider's refresh operation (a trace, so that "no provider call" can be stated).
\<close>

record world =
  users :: "User list"
  refresh_tokens :: "RefreshToken list"
  verified :: "nat \<Rightarrow> bool"
  google_sso :: "(nat \<times> GoogleUserDto \<times> json_object) list"
  authentication_log :: "AuthenticationEvent list"
  verification_emails :: "nat list"
  provider_calls :: "string list"

text \<open>A call to an injected collaborator, with its arguments.\<close>

datatype call =
    GetUserByEmail "string option"
  | CreateUser string
  | DeactivateRefreshTokens nat
  | CreateRefreshToken nat string AuthenticationMethod
  | UpdateLastUsedOn string
  | RepoCreateGoogleSso nat GoogleUserDto json_object
  | CreateUserVerification nat
  | IsEmailVerified nat
  | MarkEmailVerified nat
  | SendUserVerificationEmail User
  | LogAuthenticationEvent AuthenticationEvent
  | GenerateJwtToken User

text \<open>
  What one invocation of the service cannot see in its own code: the clock, which
  collaborator calls fail and with what (\<open>faults\<close>; a failing call throws before it
  has any effect), the identity provider's answer to a refresh (an exception, \<open>null\<close>,
  or a token set), the JWT decoder (\<open>null\<close> for a token it cannot decode), the minted
  access token, and the lifetime the store gives a new refresh token.
\<close>

record env =
  now :: int
  faults :: "call \<Rightarrow> exn option"
  googleClient_refresh :: "string \<Rightarrow> exn + TokenSet option"
  jwtService_decode :: "string option \<Rightarrow> GoogleSsoJwtDecodedPayload option"
  jwt_sign :: "User \<Rightarrow> string"
  refresh_token_lifetime :: int

subsection \<open>Effects: state passing with exceptions\<close>

type_synonym 'a io = "world \<Rightarrow> (exn + 'a) \<times> world"

definition ret :: "'a \<Rightarrow> 'a io" where
  "ret x w = (Inr x, w)"

definition throw :: "exn \<Rightarrow> 'a io" where
  "throw e w = (Inl e, w)"

definition and_then :: "'a io \<Rightarrow> ('a \<Rightarrow> 'b io) \<Rightarrow> 'b io" where
  "and_then m f w = (case m w of (Inl e, w') \<Rightarrow> (Inl e, w') | (Inr x, w') \<Rightarrow> f x w')"

definition try_catch :: "'a io \<Rightarrow> (exn \<Rightarrow> 'a io) \<Rightarrow> 'a io" where
  "try_catch m h w = (case m w of (Inl e, w') \<Rightarrow> h e w' | (Inr x, w') \<Rightarrow> (Inr x, w'))"

definition await :: "env \<Rightarrow> call \<Rightarrow> (world \<Rightarrow> 'a \<times> world) \<Rightarrow> 'a io" where
  "await E c op w =
     (case faults E c of
        Some e \<Rightarrow> (Inl e, w)
      | None \<Rightarrow> (case op w of (x, w') \<Rightarrow> (Inr x, w')))"

text \<open>JavaScript truthiness of a string that may be \<open>undefined\<close>.\<close>

fun truthy :: "string option \<Rightarrow> bool" where
  "truthy None = False"
| "truthy (Some s) = (s \<noteq> [])"

subsection \<open>Collaborators\<close>

text \<open>
  Modelled from the spec: \<open>UserService\<close>, \<open>RefreshTokenService\<close>,
  \<open>UserVerificationService\<close>, \<open>GoogleSsoRepository\<close>, \<open>AuthenticationLogService\<close> and
  \<open>AuthService.sendUserVerificationEmail\<close> are injected and their code is not part of
  the sources. The spec gives their contracts: \<open>findByEmail(email) -> User | null\<close>,
  \<open>create(partialUser) -> User\<close>, \<open>create(userId, token, method) -> tokenId\<close>,
  \<open>deactivateAll(userId)\<close>, \<open>updateLastUsed(token)\<close>, \<open>record(event)\<close> on an
  append-only log; tokens are soft-deactivated, never deleted.
\<close>

definition getUserByEmail :: "string option \<Rightarrow> world \<Rightarrow> User option \<times> world" where
  "getUserByEmail e w =
     (case e of None \<Rightarrow> (None, w)
      | Some a \<Rightarrow> (find (\<lambda>u. user_email u = a) (users w), w))"

definition fresh_user_id :: "world \<Rightarrow> nat" where
  "fresh_user_id w = Suc (fold max (map user_id (users w)) 0)"

definition createUser :: "string \<Rightarrow> world \<Rightarrow> User \<times> world" where
  "createUser e w =
     (let u = \<lparr>user_id = fresh_user_id w, user_email = e\<rparr>
      in (u, w\<lparr>users := users w @ [u]\<rparr>))"

definition deactivate :: "nat \<Rightarrow> RefreshToken \<Rightarrow> RefreshToken" where
  "deactivate userId r = (if rt_user_id r = userId then r\<lparr>is_active := False\<rparr> else r)"

definition deactivateRefreshTokens :: "nat \<Rightarrow> world \<Rightarrow> unit \<times> world" where
  "deactivateRefreshTokens userId w =
     ((), w\<lparr>refresh_tokens := map (deactivate userId) (refresh_tokens w)\<rparr>)"

definition fresh_token_id :: "world \<Rightarrow> nat" where
  "fresh_token_id w = Suc (fold max (map rt_id (refresh_tokens w)) 0)"

definition new_token_row :: "env \<Rightarrow> world \<Rightarrow> nat \<Rightarrow> string \<Rightarrow> AuthenticationMethod \<Rightarrow> RefreshToken" where
  "new_token_row E w userId t m =
     \<lparr>rt_id = fresh_token_id w, rt_user_id = userId, token = t, rt_method = m,
      expires_on = now E + refresh_token_lifetime E, last_used_on = None, is_active = True\<rparr>"

definition createRefreshToken ::
  "env \<Rightarrow> nat \<Rightarrow> string \<Rightarrow> AuthenticationMethod \<Rightarrow> world \<Rightarrow> nat \<times> world" where
  "createRefreshToken E userId t m w =
     (fresh_token_id w,
      w\<lparr>refresh_tokens := refresh_tokens w @ [new_token_row E w userId t m]\<rparr>)"

definition touch :: "env \<Rightarrow> string \<Rightarrow> RefreshToken \<Rightarrow> RefreshToken" where
  "touch E t r = (if token r = t then r\<lparr>last_used_on := Some (now E)\<rparr> else r)"

definition updateLastUsedOn :: "env \<Rightarrow> string \<Rightarrow> world \<Rightarrow> unit \<times> world" where
  "updateLastUsedOn E t w = ((), w\<lparr>refresh_tokens := map (touch E t) (refresh_tokens w)\<rparr>)"

definition repoCreateGoogleSso ::
  "nat \<Rightarrow> GoogleUserDto \<Rightarrow> json_object \<Rightarrow> world \<Rightarrow> unit \<times> world" where
  "repoCreateGoogleSso userId dto js w =
     ((), w\<lparr>google_sso := google_sso w @ [(userId, dto, js)]\<rparr>)"

definition createUserVerification :: "nat \<Rightarrow> world \<Rightarrow> unit \<times> world" where
  "createUserVerification userId w = ((), w\<lparr>verified := (verified w)(userId := False)\<rparr>)"

definition isEmailVerified :: "nat \<Rightarrow> world \<Rightarrow> bool \<times> world" where
  "isEmailVerified userId w = (verified w userId, w)"

definition markEmailVerified :: "nat \<Rightarrow> world \<Rightarrow> unit \<times> world" where
  "markEmailVerified userId w = ((), w\<lparr>verified := (verified w)(userId := True)\<rparr>)"

definition sendUserVerificationEmail :: "User \<Rightarrow> world \<Rightarrow> unit \<times> world" where
  "sendUserVerificationEmail u w =
     ((), w\<lparr>verification_emails := verification_emails w @ [user_id u]\<rparr>)"

definition logAuthenticationEvent :: "AuthenticationEvent \<Rightarrow> world \<Rightarrow> unit \<times> world" where
  "logAuthenticationEvent ev w = ((), w\<lparr>authentication_log := authentication_log w @ [ev]\<rparr>)"

text \<open>
  The identity provider's refresh: the call is recorded, and its outcome is the
  environment's.
\<close>

definition googleClient_refresh_call :: "env \<Rightarrow> string \<Rightarrow> TokenSet option io" where
  "googleClient_refresh_call E t w =
     (googleClient_refresh E t, w\<lparr>provider_calls := provider_calls w @ [t]\<rparr>)"

text \<open>
  \<open>generateJwtToken(jwtService, user, ACCESS_TOKEN_EXPIRATION_SECONDS)\<close>, a helper of the
  repository that signs with the injected \<open>JwtService\<close>.
\<close>

definition generateJwtToken :: "env \<Rightarrow> User \<Rightarrow> string io" where
  "generateJwtToken E u = await E (GenerateJwtToken u) (\<lambda>w. (jwt_sign E u, w))"

subsection \<open>createGoogleSso\<close>

definition JSON_stringify :: "GoogleUserDto \<Rightarrow> json_object" where
  "JSON_stringify g =
     (''email'', email g)
     # (''emailVerified'', if emailVerified g then ''true'' else ''false'')
     # other_fields g"

definition delete_key :: "string \<Rightarrow> json_object \<Rightarrow> json_object" where
  "delete_key k js = filter (\<lambda>(k', v). k' \<noteq> k) js"

definition createGoogleSso :: "env \<Rightarrow> nat \<Rightarrow> GoogleUserDto \<Rightarrow> json_object \<Rightarrow> unit io" where
  "createGoogleSso E userId googleUserDto rawJson =
     (let sanitizedJson = delete_key ''access_token'' rawJson
      in await E (RepoCreateGoogleSso userId googleUserDto sanitizedJson)
           (repoCreateGoogleSso userId googleUserDto sanitizedJson))"

subsection \<open>googleLogin\<close>

definition login_success_event ::
  "nat \<Rightarrow> UserRequestInfoDto \<Rightarrow> nat option \<Rightarrow> AuthenticationEvent" where
  "login_success_event userId info refreshTokenId =
     \<lparr>ev_user_id = Some userId, ev_type = Login, ev_method = GoogleSSO, ev_status = Success,
      ev_request_info = info, ev_error = None, ev_refresh_token_id = refreshTokenId\<rparr>"

definition login_failure_event :: "nat option \<Rightarrow> UserRequestInfoDto \<Rightarrow> AuthenticationEvent" where
  "login_failure_event userId info =
     \<lparr>ev_user_id = userId, ev_type = Login, ev_method = GoogleSSO, ev_status = Failure,
      ev_request_info = info, ev_error = Some UnexpectedErrorWhenAttemptingGoogleSso,
      ev_refresh_token_id = None\<rparr>"

text \<open>The try block from the point where \<open>userId = user.id\<close> has been assigned.\<close>

definition googleLogin_user ::
  "env \<Rightarrow> User \<Rightarrow> GoogleUserDto \<Rightarrow> string \<Rightarrow> UserRequestInfoDto \<Rightarrow> string io" where
  "googleLogin_user E user googleUser refreshToken info =
     and_then
       (if refreshToken \<noteq> [] then
          and_then (await E (DeactivateRefreshTokens (user_id user))
                      (deactivateRefreshTokens (user_id user)))
            (\<lambda>_. and_then
               (await E (CreateRefreshToken (user_id user) refreshToken GoogleSSO)
                  (createRefreshToken E (user_id user) refreshToken GoogleSSO))
               (\<lambda>i. ret (Some i)))
        else ret None)
       (\<lambda>refreshTokenId.
     and_then (createGoogleSso E (user_id user) googleUser (JSON_stringify googleUser))
       (\<lambda>_.
     and_then (await E (IsEmailVerified (user_id user)) (isEmailVerified (user_id user)))
       (\<lambda>isVerified.
     and_then
       (if \<not> isVerified \<and> emailVerified googleUser
        then await E (MarkEmailVerified (user_id user)) (markEmailVerified (user_id user))
        else ret ())
       (\<lambda>_.
     and_then
       (await E (LogAuthenticationEvent (login_success_event (user_id user) info refreshTokenId))
          (logAuthenticationEvent (login_success_event (user_id user) info refreshTokenId)))
       (\<lambda>_. generateJwtToken E user)))))"

text \<open>
  The whole try block; beside its outcome it yields the value the local \<open>userId\<close> has
  when the block is left, which the catch block reads. \<open>user.id\<close> on a \<open>null\<close> user
  is a TypeError.
\<close>

definition googleLogin_try ::
  "env \<Rightarrow> GoogleUserDto \<Rightarrow> string \<Rightarrow> UserRequestInfoDto \<Rightarrow> world
     \<Rightarrow> (exn + string) \<times> nat option \<times> world" where
  "googleLogin_try E googleUser refreshToken info w =
     (case await E (GetUserByEmail (Some (email googleUser)))
             (getUserByEmail (Some (email googleUser))) w of
        (Inl e, w1) \<Rightarrow> (Inl e, None, w1)
      | (Inr None, w1) \<Rightarrow> (Inl TypeError, None, w1)
      | (Inr (Some user), w1) \<Rightarrow>
          (case googleLogin_user E user googleUser refreshToken info w1 of
             (r, w2) \<Rightarrow> (r, Some (user_id user), w2)))"

definition googleLogin ::
  "env \<Rightarrow> GoogleUserDto \<Rightarrow> string \<Rightarrow> UserRequestInfoDto \<Rightarrow> string io" where
  "googleLogin E googleUser refreshToken info w =
     (case googleLogin_try E googleUser refreshToken info w of
        (Inr jwt, userId, w1) \<Rightarrow> (Inr jwt, w1)
      | (Inl error, userId, w1) \<Rightarrow>
          and_then
            (await E (LogAuthenticationEvent (login_failure_event userId info))
               (logAuthenticationEvent (login_failure_event userId info)))
            (\<lambda>_. throw GoogleAuthFailedException) w1)"

subsection \<open>refreshGoogleAccessToken\<close>

definition refreshGoogleAccessToken_try :: "env \<Rightarrow> RefreshToken \<Rightarrow> nat \<Rightarrow> AuthTokens io" where
  "refreshGoogleAccessToken_try E refreshToken userId =
     (if now E > expires_on refreshToken then
        and_then (await E (DeactivateRefreshTokens userId) (deactivateRefreshTokens userId))
          (\<lambda>_. throw ExpiredRefreshTokenException)
      else
        and_then (googleClient_refresh_call E (token refreshToken))
          (\<lambda>newTokenSet.
        case newTokenSet of
          None \<Rightarrow> throw UnexpectedErrorWhenRefreshingAccessTokenException
        | Some ts \<Rightarrow>
            if \<not> truthy (access_token ts)
            then throw UnexpectedErrorWhenRefreshingAccessTokenException
            else
        and_then (await E (UpdateLastUsedOn (token refreshToken))
                    (updateLastUsedOn E (token refreshToken)))
          (\<lambda>_.
        let decodedEmail = map_option payload_email (jwtService_decode E (id_token ts)) in
        and_then (await E (GetUserByEmail decodedEmail) (getUserByEmail decodedEmail))
          (\<lambda>found.
        case found of
          None \<Rightarrow> throw UserNotFoundException
        | Some user \<Rightarrow>
        and_then
          (if truthy (refresh_token ts) then
             and_then (await E (DeactivateRefreshTokens (user_id user))
                         (deactivateRefreshTokens (user_id user)))
               (\<lambda>_. and_then
                  (await E (CreateRefreshToken (user_id user) (the (refresh_token ts)) GoogleSSO)
                     (createRefreshToken E (user_id user) (the (refresh_token ts)) GoogleSSO))
                  (\<lambda>_. ret (refresh_token ts)))
           else ret None)
          (\<lambda>newRefreshToken.
        and_then (generateJwtToken E user)
          (\<lambda>accessToken.
        ret \<lparr>tokens_accessToken = accessToken, tokens_refreshToken = newRefreshToken\<rparr>))))))"

text \<open>The catch block: three kinds are re-thrown as they are, anything else is replaced.\<close>

definition refreshGoogleAccessToken_catch :: "exn \<Rightarrow> AuthTokens io" where
  "refreshGoogleAccessToken_catch error =
     (if error = ExpiredRefreshTokenException \<or> error = UserNotFoundException
         \<or> error = InvalidRefreshTokenException
      then throw error
      else throw UnexpectedErrorWhenRefreshingAccessTokenException)"

definition refreshGoogleAccessToken :: "env \<Rightarrow> RefreshToken \<Rightarrow> nat \<Rightarrow> AuthTokens io" where
  "refreshGoogleAccessToken E refreshToken userId =
     try_catch (refreshGoogleAccessToken_try E refreshToken userId)
       refreshGoogleAccessToken_catch"

subsection \<open>createGoogleSsoUser\<close>

text \<open>
  \<open>plainToClass(GoogleUserDto, decodedToken.payload)\<close>: the DTO class is not part of the
  sources; its two fields that the service reads are taken from the payload's.
\<close>

definition plainToClass :: "GoogleSsoJwtDecodedPayload \<Rightarrow> GoogleUserDto" where
  "plainToClass p =
     \<lparr>email = payload_email p, emailVerified = email_verified p,
      other_fields = payload_fields p\<rparr>"

definition registration_success_event :: "nat \<Rightarrow> UserRequestInfoDto \<Rightarrow> AuthenticationEvent" where
  "registration_success_event userId info =
     \<lparr>ev_user_id = Some userId, ev_type = Registration, ev_method = GoogleSSO,
      ev_status = Success, ev_request_info = info, ev_error = None,
      ev_refresh_token_id = None\<rparr>"

text \<open>The body once the response has been decoded: \<open>.id_token\<close> of a \<open>null\<close> token
  set and \<open>.payload\<close> of a \<open>null\<close> decoded token are TypeErrors.\<close>

definition createGoogleSsoUser_payload ::
  "env \<Rightarrow> string \<Rightarrow> UserRequestInfoDto \<Rightarrow> TokenSet \<Rightarrow> GoogleSsoJwtDecodedPayload
     \<Rightarrow> AuthTokens io" where
  "createGoogleSsoUser_payload E refreshToken info ts p =
     and_then (await E (CreateUser (payload_email p)) (createUser (payload_email p)))
       (\<lambda>user.
     and_then (createGoogleSso E (user_id user) (plainToClass p) (JSON_stringify (plainToClass p)))
       (\<lambda>_.
     and_then (await E (CreateUserVerification (user_id user)) (createUserVerification (user_id user)))
       (\<lambda>_.
     and_then
       (if email_verified p
        then await E (MarkEmailVerified (user_id user)) (markEmailVerified (user_id user))
        else await E (SendUserVerificationEmail user) (sendUserVerificationEmail user))
       (\<lambda>_.
     and_then
       (await E (LogAuthenticationEvent (registration_success_event (user_id user) info))
          (logAuthenticationEvent (registration_success_event (user_id user) info)))
       (\<lambda>_.
     let stored = (case refresh_token ts of None \<Rightarrow> refreshToken | Some t \<Rightarrow> t) in
     and_then
       (await E (CreateRefreshToken (user_id user) stored GoogleSSO)
          (createRefreshToken E (user_id user) stored GoogleSSO))
       (\<lambda>_.
     and_then (generateJwtToken E user)
       (\<lambda>accessToken.
     ret \<lparr>tokens_accessToken = accessToken, tokens_refreshToken = Some stored\<rparr>)))))))"

definition createGoogleSsoUser :: "env \<Rightarrow> string \<Rightarrow> UserRequestInfoDto \<Rightarrow> AuthTokens io" where
  "createGoogleSsoUser E refreshToken info =
     and_then (googleClient_refresh_call E refreshToken)
       (\<lambda>newTokenSet.
     case newTokenSet of
       None \<Rightarrow> throw TypeError
     | Some ts \<Rightarrow>
         (case jwtService_decode E (id_token ts) of
            None \<Rightarrow> throw TypeError
          | Some p \<Rightarrow> createGoogleSsoUser_payload E refreshToken info ts p))"

section \<open>Session-resolution middleware (authenticate-user.middleware.ts)\<close>

subsection \<open>Requests, responses and the helpers the middleware imports\<close>

record RequestCookie =
  cookie_name :: string
  cookie_value :: string

record NextRequest =
  cookies :: "RequestCookie list"
  cookie_header :: "string option"
  pathname :: string

record CookieOptions =
  opt_path :: string
  opt_httpOnly :: bool
  opt_secure :: bool
  opt_sameSite :: string
  opt_maxAge :: "nat option"

text \<open>
  What a response tells the browser to do with a cookie: \<open>response.cookies.set\<close>
  stores a value, \<open>response.cookies.delete\<close> asks for the cookie to be removed.
\<close>

datatype cookie_write = SetCookie string CookieOptions | DeleteCookie

datatype response_kind = Next | Redirect string

record NextResponse =
  kind :: response_kind
  res_cookies :: "string \<rightharpoonup> cookie_write"
  res_headers :: "string \<rightharpoonup> string"

datatype Me = UserMe (language: string) | PatientMe

record ActorResponse =
  me :: "Me option"
  sessionId :: string
  actor_token :: string

record LoggedUserData =
  loggedUser :: "ActorResponse option"

text \<open>
  \<open>fetchLoggedInUserInfo\<close>, the three helpers of \<open>./helpers\<close>, the route utilities
  and the serialisation of the actor are imported from files that are not part of the
  sources: they are parameters. The fetch answers with the pair \<open>[loggedUser, error]\<close>;
  the middleware tests the error for truthiness, so an absent and an empty error both
  count as no error.
\<close>

record helpers =
  fetchLoggedInUserInfo :: "string \<Rightarrow> LoggedUserData option \<times> string option"
  getPatientSessionCookie :: "NextRequest \<Rightarrow> RequestCookie option"
  getUserSessionCookies :: "NextRequest \<Rightarrow> RequestCookie list"
  removeNonValidSessions :: "ActorResponse \<Rightarrow> NextRequest \<Rightarrow> NextResponse \<Rightarrow> NextResponse"
  getRoutePathLang :: "string \<Rightarrow> string"
  getLangPrefix :: "string \<Rightarrow> string"
  removeLangPrefix :: "string \<Rightarrow> string"
  stringify_me :: "Me \<Rightarrow> string"

definition cookies_get :: "NextRequest \<Rightarrow> string \<Rightarrow> RequestCookie option" where
  "cookies_get request n = find (\<lambda>c. cookie_name c = n) (cookies request)"

definition cookies_set :: "string \<Rightarrow> string \<Rightarrow> NextRequest \<Rightarrow> NextRequest" where
  "cookies_set n v request =
     (let c = \<lparr>cookie_name = n, cookie_value = v\<rparr> in
      if cookies_get request n = None
      then request\<lparr>cookies := cookies request @ [c]\<rparr>
      else request\<lparr>cookies := map (\<lambda>d. if cookie_name d = n then c else d) (cookies request)\<rparr>)"

definition NextResponse_next :: NextResponse where
  "NextResponse_next = \<lparr>kind = Next, res_cookies = Map.empty, res_headers = Map.empty\<rparr>"

definition NextResponse_redirect :: "string \<Rightarrow> NextResponse" where
  "NextResponse_redirect url =
     \<lparr>kind = Redirect url, res_cookies = Map.empty, res_headers = Map.empty\<rparr>"

definition response_cookies_set ::
  "string \<Rightarrow> string \<Rightarrow> CookieOptions \<Rightarrow> NextResponse \<Rightarrow> NextResponse" where
  "response_cookies_set n v opts r = r\<lparr>res_cookies := (res_cookies r)(n \<mapsto> SetCookie v opts)\<rparr>"

definition response_cookies_delete :: "string \<Rightarrow> NextResponse \<Rightarrow> NextResponse" where
  "response_cookies_delete n r = r\<lparr>res_cookies := (res_cookies r)(n \<mapsto> DeleteCookie)\<rparr>"

definition response_headers_set :: "string \<Rightarrow> string \<Rightarrow> NextResponse \<Rightarrow> NextResponse" where
  "response_headers_set n v r = r\<lparr>res_headers := (res_headers r)(n \<mapsto> v)\<rparr>"

definition response_headers_delete :: "string \<Rightarrow> NextResponse \<Rightarrow> NextResponse" where
  "response_headers_delete n r = r\<lparr>res_headers := (res_headers r)(n := None)\<rparr>"

text \<open>The browser's cookie jar after it has received a response.\<close>

definition receive :: "NextResponse \<Rightarrow> (string \<rightharpoonup> string) \<Rightarrow> (string \<rightharpoonup> string)" where
  "receive r jar =
     (\<lambda>n. case res_cookies r n of
             None \<Rightarrow> jar n
           | Some (SetCookie v opts) \<Rightarrow> Some v
           | Some DeleteCookie \<Rightarrow> None)"

subsection \<open>The middleware\<close>

definition cookiesHasFetchedActor :: "helpers \<Rightarrow> NextRequest \<Rightarrow> bool" where
  "cookiesHasFetchedActor H request =
     (let patientSessionCookie = getPatientSessionCookie H request;
          userSessionCookies = getUserSessionCookies H request
      in if length userSessionCookies < 1 \<and> patientSessionCookie = None then False
         else if length userSessionCookies = 1
                 \<and> map_option cookie_value
                      (cookies_get request (''user-'' @ cookie_name (hd userSessionCookies)))
                    = Some (cookie_value (hd userSessionCookies))
         then True
         else False)"

text \<open>The four deletions of \<open>clearSessionCookies\<close>, on any response.\<close>

definition clear_session :: "NextResponse \<Rightarrow> NextResponse" where
  "clear_session r =
     response_headers_delete ''authToken''
       (response_headers_delete ''logged-user''
          (response_cookies_delete ''authToken''
             (response_cookies_delete ''logged-user'' r)))"

definition clearSessionCookies :: NextResponse where
  "clearSessionCookies = clear_session NextResponse_next"

definition preferredLang :: "string \<Rightarrow> string" where
  "preferredLang l = (if l = ''nb'' then ''no'' else l)"

definition userNeedsLangRedirect :: "helpers \<Rightarrow> ActorResponse \<Rightarrow> NextRequest \<Rightarrow> bool" where
  "userNeedsLangRedirect H actor request =
     (case me actor of
        Some (UserMe l) \<Rightarrow>
          if cookies_get request ''logged-user'' \<noteq> None then False
          else getRoutePathLang H (pathname request) \<noteq> preferredLang l
      | _ \<Rightarrow> False)"

definition redirectToUserLang :: "helpers \<Rightarrow> string \<Rightarrow> NextRequest \<Rightarrow> NextResponse" where
  "redirectToUserLang H l request =
     NextResponse_redirect
       (getLangPrefix H (preferredLang l) @ removeLangPrefix H (pathname request))"

fun split_on :: "char \<Rightarrow> string \<Rightarrow> string list" where
  "split_on d [] = [[]]"
| "split_on d (c # cs) =
     (if c = d then [] # split_on d cs
      else (case split_on d cs of p # ps \<Rightarrow> (c # p) # ps | [] \<Rightarrow> [[c]]))"

definition session_cookie_options :: "nat option \<Rightarrow> CookieOptions" where
  "session_cookie_options age =
     \<lparr>opt_path = ''/'', opt_httpOnly = False, opt_secure = True, opt_sameSite = ''lax'',
      opt_maxAge = age\<rparr>"

text \<open>A session value missing after the split is written as the empty value.\<close>

definition markSessionFetched :: "string \<Rightarrow> NextResponse \<Rightarrow> NextResponse" where
  "markSessionFetched userSessionId response =
     (let parts = split_on CHR ''='' userSessionId;
          sid = hd parts;
          sessionValue = (case tl parts of [] \<Rightarrow> [] | v # rest \<Rightarrow> v)
      in response_cookies_set (''user-'' @ sid) sessionValue
           (session_cookie_options (Some 60)) response)"

definition setActorCookies ::
  "helpers \<Rightarrow> ActorResponse \<Rightarrow> Me \<Rightarrow> NextRequest \<Rightarrow> NextRequest \<times> NextResponse" where
  "setActorCookies H actor m request =
     (let response0 =
            (if userNeedsLangRedirect H actor request
             then redirectToUserLang H (language m) request
             else NextResponse_next);
          response1 =
            (case m of
               UserMe l \<Rightarrow>
                 markSessionFetched (sessionId actor)
                   (removeNonValidSessions H actor request response0)
             | PatientMe \<Rightarrow> response0);
          meStr = stringify_me H m
      in (cookies_set ''logged-user'' meStr request,
          response_headers_set ''authToken'' (actor_token actor)
            (response_headers_set ''logged-user'' meStr
               (response_cookies_set ''authToken'' (actor_token actor)
                  (session_cookie_options None)
                  (response_cookies_set ''logged-user'' meStr
                     (session_cookie_options None) response1)))))"

text \<open>
  What one run of the middleware produces: the response it returns (\<open>None\<close> when it
  returns nothing), the request as it leaves it, and the cookie headers it sent to the
  logged-in-user fetch.
\<close>

record outcome =
  response :: "NextResponse option"
  request_after :: NextRequest
  fetches :: "string list"

definition request_cookie_header :: "NextRequest \<Rightarrow> string" where
  "request_cookie_header request =
     (case cookie_header request of None \<Rightarrow> [] | Some c \<Rightarrow> c)"

definition resolved_actor :: "LoggedUserData option \<Rightarrow> (ActorResponse \<times> Me) option" where
  "resolved_actor d =
     (case d of
        None \<Rightarrow> None
      | Some q \<Rightarrow>
          (case loggedUser q of
             None \<Rightarrow> None
           | Some a \<Rightarrow> (case me a of None \<Rightarrow> None | Some m \<Rightarrow> Some (a, m))))"

definition authenticateUserMiddleware :: "helpers \<Rightarrow> NextRequest \<Rightarrow> outcome" where
  "authenticateUserMiddleware H request =
     (if cookiesHasFetchedActor H request
      then \<lparr>response = None, request_after = request, fetches = []\<rparr>
      else
        (case fetchLoggedInUserInfo H (request_cookie_header request) of
           (d, error) \<Rightarrow>
             if truthy error
             then \<lparr>response = None, request_after = request,
                   fetches = [request_cookie_header request]\<rparr>
             else
               (case resolved_actor d of
                  None \<Rightarrow>
                    \<lparr>response = Some clearSessionCookies, request_after = request,
                     fetches = [request_cookie_header request]\<rparr>
                | Some (a, m) \<Rightarrow>
                    (case setActorCookies H a m request of
                       (request', r) \<Rightarrow>
                         \<lparr>response = Some r, request_after = request',
                          fetches = [request_cookie_header request]\<rparr>))))"

section \<open>GraphQL auth context\<close>

type_synonym Role = string

record UserEntity =
  entity_id :: nat
  roles :: "Role list"

record AuthUser =
  auth_entity :: UserEntity
  auth_sessionId :: string
  isCustomersAdmin_flag :: bool

record AuthPatient =
  patientId :: nat
  code :: string
  patient_token :: string

text \<open>A JavaScript value as the schema \<open>z.string().optional()\<close> sees it.\<close>

datatype js_value = JsUndefined | JsString string | JsOther

record ExtendedRequest =
  req_user :: "UserEntity option"
  req_patient :: "AuthPatient option"
  req_sessionId :: "string option"
  req_headers :: "string \<rightharpoonup> string"
  connection_windowId :: js_value

record IGqlContext =
  ctx_lang :: string
  ctx_pathname :: string
  ctx_windowId :: "string option"
  ctx_user :: "AuthUser option"
  ctx_patient :: "AuthPatient option"

datatype ctx_exn = ZodError | Error string | UnauthorizedException string

text \<open>
  \<open>hasOneOfTheRoles\<close> and the constant \<open>RolesCustomerAdmin\<close> come from a file that is
  not part of the sources: they are parameters.
\<close>

record role_deps =
  hasOneOfTheRoles :: "Role list \<Rightarrow> Role list \<Rightarrow> bool"
  RolesCustomerAdmin :: "Role list"

definition parse_optional_string :: "js_value \<Rightarrow> ctx_exn + string option" where
  "parse_optional_string v =
     (case v of JsUndefined \<Rightarrow> Inr None | JsString s \<Rightarrow> Inr (Some s) | JsOther \<Rightarrow> Inl ZodError)"

definition nullish_or_empty :: "string option \<Rightarrow> string" where
  "nullish_or_empty v = (case v of None \<Rightarrow> [] | Some s \<Rightarrow> s)"

definition getLang :: "(string \<rightharpoonup> string) \<Rightarrow> string" where
  "getLang headers =
     (let v = nullish_or_empty (headers ''accept-language'')
      in if v = ''en'' \<or> v = ''no'' then v else ''no'')"

text \<open>\<open>String.prototype.replace\<close> with a string pattern and the empty replacement:
  the first occurrence is removed.\<close>

fun remove_first :: "string \<Rightarrow> string \<Rightarrow> string" where
  "remove_first pat [] = []"
| "remove_first pat (c # cs) =
     (if take (length pat) (c # cs) = pat then drop (length pat) (c # cs)
      else c # remove_first pat cs)"

definition getPathname :: "(string \<rightharpoonup> string) \<Rightarrow> string" where
  "getPathname headers =
     (let pageUrl = nullish_or_empty (headers ''x-page-url'');
          baseUrl = nullish_or_empty (headers ''origin'')
      in remove_first baseUrl pageUrl)"

definition isCustomersAdmin :: "role_deps \<Rightarrow> UserEntity option \<Rightarrow> bool" where
  "isCustomersAdmin D user =
     (case user of None \<Rightarrow> False
      | Some u \<Rightarrow> hasOneOfTheRoles D (roles u) (RolesCustomerAdmin D))"

text \<open>The result is \<open>None\<close> where the function falls off its end and returns \<open>undefined\<close>.\<close>

definition getExtendedRequestAuthContext ::
  "role_deps \<Rightarrow> ExtendedRequest \<Rightarrow> ctx_exn + IGqlContext option" where
  "getExtendedRequestAuthContext D req =
     (case parse_optional_string (connection_windowId req) of
        Inl e \<Rightarrow> Inl e
      | Inr windowId \<Rightarrow>
          (let lang = getLang (req_headers req);
               pathname' = getPathname (req_headers req)
           in case req_user req of
                Some u \<Rightarrow>
                  Inr (Some \<lparr>ctx_lang = lang, ctx_pathname = pathname', ctx_windowId = windowId,
                     ctx_user = Some \<lparr>auth_entity = u,
                        auth_sessionId = nullish_or_empty (req_sessionId req),
                        isCustomersAdmin_flag = isCustomersAdmin D (Some u)\<rparr>,
                     ctx_patient = None\<rparr>)
              | None \<Rightarrow>
                  (case req_patient req of
                     Some p \<Rightarrow>
                       Inr (Some \<lparr>ctx_lang = lang, ctx_pathname = pathname',
                          ctx_windowId = windowId, ctx_user = None, ctx_patient = Some p\<rparr>)
                   | None \<Rightarrow> Inr None)))"

text \<open>\<open>getContextRequest(ctx)\<close> belongs to the auth guard, which is not part of the
  sources; the execution context is taken to carry its request.\<close>

datatype ExecutionContext = ExecutionContext (getContextRequest: ExtendedRequest)

definition getAuthContext :: "role_deps \<Rightarrow> ExecutionContext \<Rightarrow> ctx_exn + IGqlContext" where
  "getAuthContext D ctx =
     (case getExtendedRequestAuthContext D (getContextRequest ctx) of
        Inl e \<Rightarrow> Inl e
      | Inr extContext \<Rightarrow>
          (case extContext of
             None \<Rightarrow> Inl (Error ''Either user or patient must be non-null.'')
           | Some c \<Rightarrow>
               if ctx_user c = None \<and> ctx_patient c = None
               then Inl (Error ''Either user or patient must be non-null.'')
               else Inr c))"

definition getContextUser :: "role_deps \<Rightarrow> ExecutionContext \<Rightarrow> ctx_exn + AuthUser" where
  "getContextUser D ctx =
     (case getAuthContext D ctx of
        Inl e \<Rightarrow> Inl e
      | Inr c \<Rightarrow>
          (case ctx_user c of
             None \<Rightarrow> Inl (UnauthorizedException ''User is not authenticated'')
           | Some u \<Rightarrow> Inr u))"

definition getContextPatient :: "role_deps \<Rightarrow> ExecutionContext \<Rightarrow> ctx_exn + AuthPatient" where
  "getContextPatient D ctx =
     (case getAuthContext D ctx of
        Inl e \<Rightarrow> Inl e
      | Inr c \<Rightarrow>
          (case ctx_patient c of
             None \<Rightarrow> Inl (UnauthorizedException ''Patient is not authenticated'')
           | Some p \<Rightarrow> Inr p))"

section \<open>Notions used in the statements\<close>

text \<open>The refresh tokens of a user that are active.\<close>

definition active_tokens :: "nat \<Rightarrow> world \<Rightarrow> RefreshToken list" where
  "active_tokens userId w =
     filter (\<lambda>r. rt_user_id r = userId \<and> is_active r) (refresh_tokens w)"


text \<open>The exception kinds the catch block of \<open>refreshGoogleAccessToken\<close> lets through.\<close>

definition allow_list :: "exn set" where
  "allow_list =
     {ExpiredRefreshTokenException, UserNotFoundException, InvalidRefreshTokenException}"

text \<open>The provider answered, and the answer is \<open>null\<close> or has no usable access token.\<close>

definition no_access_token :: "exn + TokenSet option \<Rightarrow> bool" where
  "no_access_token answer =
     (case answer of
        Inl e \<Rightarrow> False
      | Inr None \<Rightarrow> True
      | Inr (Some ts) \<Rightarrow> \<not> truthy (access_token ts))"

text \<open>The token table after a rotation: every row touched, the user's rows deactivated,
  the new row appended.\<close>

definition rotated :: "env \<Rightarrow> world \<Rightarrow> RefreshToken \<Rightarrow> User \<Rightarrow> string \<Rightarrow> RefreshToken list" where
  "rotated E w refreshToken user t =
     map (deactivate (user_id user)) (map (touch E (token refreshToken)) (refresh_tokens w))
     @ [\<lparr>rt_id = fresh_token_id w, rt_user_id = user_id user, token = t,
         rt_method = GoogleSSO, expires_on = now E + refresh_token_lifetime E,
         last_used_on = None, is_active = True\<rparr>]"

section \<open>Concrete scenarios\<close>

definition alice :: User where
  "alice = \<lparr>user_id = 1, user_email = ''alice@example.com''\<rparr>"

definition alice_google :: GoogleUserDto where
  "alice_google =
     \<lparr>email = ''alice@example.com'', emailVerified = True,
      other_fields = [(''access_token'', ''ya29'')]\<rparr>"

definition alice_payload :: GoogleSsoJwtDecodedPayload where
  "alice_payload =
     \<lparr>payload_email = ''alice@example.com'', email_verified = True, payload_fields = []\<rparr>"

definition bob_payload :: GoogleSsoJwtDecodedPayload where
  "bob_payload =
     \<lparr>payload_email = ''bob@example.com'', email_verified = False, payload_fields = []\<rparr>"

definition bob_google :: GoogleUserDto where
  "bob_google = \<lparr>email = ''bob@example.com'', emailVerified = True, other_fields = []\<rparr>"

definition world0 :: world where
  "world0 =
     \<lparr>users = [alice], refresh_tokens = [], verified = (\<lambda>u. False), google_sso = [],
      authentication_log = [], verification_emails = [], provider_calls = []\<rparr>"

definition stored_token :: RefreshToken where
  "stored_token =
     \<lparr>rt_id = 1, rt_user_id = 1, token = ''rt-1'', rt_method = GoogleSSO, expires_on = 100,
      last_used_on = None, is_active = True\<rparr>"

definition world1 :: world where
  "world1 = world0\<lparr>refresh_tokens := [stored_token]\<rparr>"

definition quiet_env :: env where
  "quiet_env =
     \<lparr>now = 50, faults = (\<lambda>c. None), googleClient_refresh = (\<lambda>t. Inr None),
      jwtService_decode = (\<lambda>t. None), jwt_sign = (\<lambda>u. ''jwt''),
      refresh_token_lifetime = 1000\<rparr>"

definition minting_fails_env :: env where
  "minting_fails_env =
     quiet_env\<lparr>faults :=
       (\<lambda>c. case c of GenerateJwtToken u \<Rightarrow> Some (OtherError ''no signing key'')
             | _ \<Rightarrow> None)\<rparr>"



definition alice_google_unverified :: GoogleUserDto where
  "alice_google_unverified =
     \<lparr>email = ''alice@example.com'', emailVerified = False, other_fields = []\<rparr>"

definition late_env :: env where
  "late_env = quiet_env\<lparr>now := 101\<rparr>"

definition provider_down_env :: env where
  "provider_down_env =
     quiet_env\<lparr>googleClient_refresh := (\<lambda>t. Inl (OtherError ''ECONNRESET''))\<rparr>"

definition provider_invalid_env :: env where
  "provider_invalid_env =
     quiet_env\<lparr>googleClient_refresh := (\<lambda>t. Inl InvalidRefreshTokenException)\<rparr>"

definition rotating_env :: env where
  "rotating_env =
     quiet_env\<lparr>googleClient_refresh :=
        (\<lambda>t. Inr (Some \<lparr>access_token = Some ''at'', refresh_token = Some ''rt-2'',
                         id_token = Some ''id-alice''\<rparr>)),
       jwtService_decode :=
        (\<lambda>t. if t = Some ''id-alice'' then Some alice_payload else None)\<rparr>"

definition keeping_env :: env where
  "keeping_env =
     quiet_env\<lparr>googleClient_refresh :=
        (\<lambda>t. Inr (Some \<lparr>access_token = Some ''at'', refresh_token = None,
                         id_token = Some ''id-alice''\<rparr>)),
       jwtService_decode :=
        (\<lambda>t. if t = Some ''id-alice'' then Some alice_payload else None)\<rparr>"

definition bob_token_set :: TokenSet where
  "bob_token_set =
     \<lparr>access_token = Some ''at'', refresh_token = None, id_token = Some ''id-bob''\<rparr>"

definition signup_env :: env where
  "signup_env =
     quiet_env\<lparr>googleClient_refresh := (\<lambda>t. Inr (Some bob_token_set)),
       jwtService_decode :=
        (\<lambda>t. if t = Some ''id-bob'' then Some bob_payload else None)\<rparr>"

definition session_helpers :: helpers where
  "session_helpers =
     \<lparr>fetchLoggedInUserInfo = (\<lambda>h. (None, Some ''fetch failed'')),
      getPatientSessionCookie = (\<lambda>r. find (\<lambda>c. cookie_name c = ''patient-session'') (cookies r)),
      getUserSessionCookies =
        (\<lambda>r. filter (\<lambda>c. take 8 (cookie_name c) = ''session-'') (cookies r)),
      removeNonValidSessions = (\<lambda>a request r. r),
      getRoutePathLang = (\<lambda>p. take 2 (drop 1 p)),
      getLangPrefix = (\<lambda>l. ''/'' @ l),
      removeLangPrefix = (\<lambda>p. drop 3 p),
      stringify_me = (\<lambda>m. case m of UserMe l \<Rightarrow> ''user'' | PatientMe \<Rightarrow> ''patient'')\<rparr>"

definition no_actor_helpers :: helpers where
  "no_actor_helpers =
     session_helpers\<lparr>fetchLoggedInUserInfo := (\<lambda>h. (Some \<lparr>loggedUser = None\<rparr>, None))\<rparr>"

definition empty_error_helpers :: helpers where
  "empty_error_helpers =
     session_helpers\<lparr>fetchLoggedInUserInfo := (\<lambda>h. (None, Some []))\<rparr>"

definition fresh_request :: NextRequest where
  "fresh_request = \<lparr>cookies = [], cookie_header = None, pathname = ''/no/home''\<rparr>"

definition cached_request :: NextRequest where
  "cached_request =
     \<lparr>cookies = [\<lparr>cookie_name = ''session-7'', cookie_value = ''abc''\<rparr>,
                 \<lparr>cookie_name = ''user-session-7'', cookie_value = ''abc''\<rparr>],
      cookie_header = Some ''session-7=abc; user-session-7=abc'', pathname = ''/no/home''\<rparr>"

definition stale_request :: NextRequest where
  "stale_request =
     \<lparr>cookies = [\<lparr>cookie_name = ''session-7'', cookie_value = ''abc''\<rparr>,
                 \<lparr>cookie_name = ''user-session-7'', cookie_value = ''old''\<rparr>],
      cookie_header = Some ''session-7=abc; user-session-7=old'', pathname = ''/no/home''\<rparr>"

definition role_deps0 :: role_deps where
  "role_deps0 =
     \<lparr>hasOneOfTheRoles = (\<lambda>rs allowed. list_ex (\<lambda>r. r \<in> set allowed) rs),
      RolesCustomerAdmin = [''customer_admin'']\<rparr>"

definition doctor :: UserEntity where
  "doctor = \<lparr>entity_id = 7, roles = [''doctor'']\<rparr>"

definition patient9 :: AuthPatient where
  "patient9 = \<lparr>patientId = 9, code = ''P9'', patient_token = ''tok''\<rparr>"

definition both_request :: ExtendedRequest where
  "both_request =
     \<lparr>req_user = Some doctor, req_patient = Some patient9, req_sessionId = Some ''s1'',
      req_headers = Map.empty, connection_windowId = JsUndefined\<rparr>"

section \<open>Proofs: Google SSO service\<close>

lemmas io_defs = ret_def throw_def and_then_def try_catch_def await_def

lemmas store_defs = getUserByEmail_def deactivateRefreshTokens_def createRefreshToken_def
  updateLastUsedOn_def repoCreateGoogleSso_def createUserVerification_def isEmailVerified_def
  markEmailVerified_def sendUserVerificationEmail_def logAuthenticationEvent_def createUser_def

lemmas service_defs = googleLogin_def googleLogin_try_def googleLogin_user_def
  createGoogleSso_def generateJwtToken_def googleClient_refresh_call_def
  refreshGoogleAccessToken_def refreshGoogleAccessToken_try_def
  refreshGoogleAccessToken_catch_def createGoogleSsoUser_def createGoogleSsoUser_payload_def
  new_token_row_def fresh_token_id_def fresh_user_id_def Let_def

lemmas scenario_defs = alice_def alice_google_def alice_payload_def bob_payload_def
  bob_google_def world0_def world1_def stored_token_def quiet_env_def

subsection \<open>The audit trail of \<open>googleLogin\<close>\<close>





text \<open>
  Beside that, the Success record is written before the last statement of the try block:
  when minting the access token throws, the catch block adds its Failure record to the
  Success record already written, and one attempt leaves two audit records.
\<close>

theorem googleLogin_two_audit_records:
  "googleLogin minting_fails_env alice_google ''rt-1'' ''10.0.0.1'' world0 =
     (Inl GoogleAuthFailedException,
      world0\<lparr>refresh_tokens := [new_token_row minting_fails_env world0 1 ''rt-1'' GoogleSSO],
        google_sso := [(1, alice_google, delete_key ''access_token'' (JSON_stringify alice_google))],
        verified := (verified world0)(1 := True),
        authentication_log :=
          [login_success_event 1 ''10.0.0.1'' (Some 1),
           login_failure_event (Some 1) ''10.0.0.1'']\<rparr>)"
  by (simp add: service_defs io_defs store_defs scenario_defs minting_fails_env_def)

subsection \<open>Facts about the token table\<close>

lemma no_active_after_deactivate:
  "filter (\<lambda>r. rt_user_id r = u \<and> is_active r) (map (deactivate u) xs) = []"
  by (induction xs) (auto simp: deactivate_def)

lemma sole_active_after_rotation:
  assumes "refresh_tokens w' = map (deactivate u) xs @ [row]"
    and "rt_user_id row = u" and "is_active row"
  shows "active_tokens u w' = [row] \<and> last (refresh_tokens w') = row"
  using assms by (simp add: active_tokens_def no_active_after_deactivate)

lemma active_after_touch:
  "filter (\<lambda>r. rt_user_id r = u \<and> is_active r) (map (touch E t) xs)
     = map (touch E t) (filter (\<lambda>r. rt_user_id r = u \<and> is_active r) xs)"
  by (induction xs) (auto simp: touch_def)

lemma rt_id_deactivate: "rt_id (deactivate u r) = rt_id r"
  by (simp add: deactivate_def)

lemma rt_id_touch: "rt_id (touch E t r) = rt_id r"
  by (simp add: touch_def)

subsection \<open>\<open>refreshGoogleAccessToken\<close>: the expired token\<close>

text \<open>
  C2. When the clock is past the stored token's \<open>expires_on\<close> (and the store carries out
  the deactivation it is asked for), \<open>refreshGoogleAccessToken\<close> deactivates every refresh
  token of the user and throws \<open>ExpiredRefreshTokenException\<close>, whatever the identity
  provider would have answered: the provider is not called at all, and the user is left
  with no active token.
\<close>

theorem refresh_expired:
  assumes expired: "now E > expires_on refreshToken"
    and store: "faults E (DeactivateRefreshTokens userId) = None"
  shows "refreshGoogleAccessToken E refreshToken userId w =
           (Inl ExpiredRefreshTokenException,
            w\<lparr>refresh_tokens := map (deactivate userId) (refresh_tokens w)\<rparr>)
         \<and> active_tokens userId (snd (refreshGoogleAccessToken E refreshToken userId w)) = []
         \<and> provider_calls (snd (refreshGoogleAccessToken E refreshToken userId w))
             = provider_calls w"
proof -
  have run: "refreshGoogleAccessToken E refreshToken userId w =
           (Inl ExpiredRefreshTokenException,
            w\<lparr>refresh_tokens := map (deactivate userId) (refresh_tokens w)\<rparr>)"
    using expired store
    by (simp add: refreshGoogleAccessToken_def refreshGoogleAccessToken_try_def
        refreshGoogleAccessToken_catch_def io_defs store_defs)
  then show ?thesis
    by (simp add: active_tokens_def no_active_after_deactivate)
qed

theorem refresh_expired_witness:
  "now late_env > expires_on stored_token
   \<and> faults late_env (DeactivateRefreshTokens 1) = None
   \<and> active_tokens 1 world1 = [stored_token]
   \<and> refreshGoogleAccessToken late_env stored_token 1 world1 =
       (Inl ExpiredRefreshTokenException,
        world1\<lparr>refresh_tokens := [stored_token\<lparr>is_active := False\<rparr>]\<rparr>)
   \<and> active_tokens 1 (snd (refreshGoogleAccessToken late_env stored_token 1 world1)) = []"
proof -
  have late: "now late_env > expires_on stored_token"
    by (simp add: late_env_def quiet_env_def stored_token_def)
  have store: "faults late_env (DeactivateRefreshTokens 1) = None"
    by (simp add: late_env_def quiet_env_def)
  have before: "active_tokens 1 world1 = [stored_token]"
    by (simp add: active_tokens_def world1_def world0_def stored_token_def)
  have rows: "map (deactivate 1) (refresh_tokens world1) = [stored_token\<lparr>is_active := False\<rparr>]"
    by (simp add: world1_def world0_def deactivate_def stored_token_def)
  have after: "active_tokens 1 (world1\<lparr>refresh_tokens := [stored_token\<lparr>is_active := False\<rparr>]\<rparr>) = []"
    by (simp add: active_tokens_def)
  from refresh_expired [OF late store, of world1] late store before rows after show ?thesis
    by simp
qed

subsection \<open>\<open>refreshGoogleAccessToken\<close>: which exceptions leave it\<close>

lemma catch_cases:
  "refreshGoogleAccessToken_try E refreshToken userId w = (Inl e, w') \<Longrightarrow>
   refreshGoogleAccessToken E refreshToken userId w =
     (Inl (if e \<in> allow_list then e else UnexpectedErrorWhenRefreshingAccessTokenException), w')"
  by (auto simp: refreshGoogleAccessToken_def refreshGoogleAccessToken_catch_def try_catch_def
      throw_def allow_list_def)

lemma try_no_access_token:
  assumes "\<not> now E > expires_on refreshToken"
    and "no_access_token (googleClient_refresh E (token refreshToken))"
  shows "refreshGoogleAccessToken_try E refreshToken userId w =
     (Inl UnexpectedErrorWhenRefreshingAccessTokenException,
      w\<lparr>provider_calls := provider_calls w @ [token refreshToken]\<rparr>)"
  using assms
  by (auto simp: refreshGoogleAccessToken_try_def no_access_token_def io_defs
      googleClient_refresh_call_def split: sum.splits option.splits)

lemma try_provider_throws:
  assumes "\<not> now E > expires_on refreshToken"
    and "googleClient_refresh E (token refreshToken) = Inl e"
  shows "refreshGoogleAccessToken_try E refreshToken userId w =
     (Inl e, w\<lparr>provider_calls := provider_calls w @ [token refreshToken]\<rparr>)"
  using assms
  by (auto simp: refreshGoogleAccessToken_try_def io_defs googleClient_refresh_call_def)

text \<open>
  C3. Whatever \<open>refreshGoogleAccessToken\<close> throws is one of
  \<open>ExpiredRefreshTokenException\<close>, \<open>UserNotFoundException\<close>,
  \<open>InvalidRefreshTokenException\<close> or
  \<open>UnexpectedErrorWhenRefreshingAccessTokenException\<close>: an exception of the first three
  kinds raised inside it leaves it unchanged, every other exception raised inside it is
  replaced by the fourth. In particular a provider answer that is missing, or whose
  \<open>access_token\<close> is missing or empty, ends in
  \<open>UnexpectedErrorWhenRefreshingAccessTokenException\<close>, not in the expiry exception.
\<close>

theorem refresh_exception_kinds:
  "(\<forall>e w'. refreshGoogleAccessToken E refreshToken userId w = (Inl e, w') \<longrightarrow>
       e \<in> allow_list \<or> e = UnexpectedErrorWhenRefreshingAccessTokenException)
   \<and> (\<forall>e w'. refreshGoogleAccessToken_try E refreshToken userId w = (Inl e, w') \<longrightarrow>
         refreshGoogleAccessToken E refreshToken userId w =
           (Inl (if e \<in> allow_list then e
                 else UnexpectedErrorWhenRefreshingAccessTokenException), w'))
   \<and> (\<not> now E > expires_on refreshToken
        \<and> no_access_token (googleClient_refresh E (token refreshToken)) \<longrightarrow>
       fst (refreshGoogleAccessToken E refreshToken userId w)
         = Inl UnexpectedErrorWhenRefreshingAccessTokenException)"
proof (intro conjI allI impI)
  fix e w'
  assume run: "refreshGoogleAccessToken E refreshToken userId w = (Inl e, w')"
  obtain r0 w0 where body: "refreshGoogleAccessToken_try E refreshToken userId w = (r0, w0)"
    by (cases "refreshGoogleAccessToken_try E refreshToken userId w")
  show "e \<in> allow_list \<or> e = UnexpectedErrorWhenRefreshingAccessTokenException"
  proof (cases r0)
    case (Inl e0)
    with body catch_cases [of E refreshToken userId w e0 w0] run show ?thesis
      by (auto split: if_splits)
  next
    case (Inr v)
    with body run show ?thesis
      by (simp add: refreshGoogleAccessToken_def try_catch_def)
  qed
next
  fix e w'
  assume "refreshGoogleAccessToken_try E refreshToken userId w = (Inl e, w')"
  then show "refreshGoogleAccessToken E refreshToken userId w =
           (Inl (if e \<in> allow_list then e
                 else UnexpectedErrorWhenRefreshingAccessTokenException), w')"
    by (rule catch_cases)
next
  assume a: "\<not> now E > expires_on refreshToken
        \<and> no_access_token (googleClient_refresh E (token refreshToken))"
  then have "refreshGoogleAccessToken_try E refreshToken userId w =
     (Inl UnexpectedErrorWhenRefreshingAccessTokenException,
      w\<lparr>provider_calls := provider_calls w @ [token refreshToken]\<rparr>)"
    by (simp add: try_no_access_token)
  from catch_cases [OF this]
  show "fst (refreshGoogleAccessToken E refreshToken userId w)
         = Inl UnexpectedErrorWhenRefreshingAccessTokenException"
    by (simp add: allow_list_def)
qed

theorem refresh_exception_kinds_witness:
  "refreshGoogleAccessToken_try provider_invalid_env stored_token 1 world1
     = (Inl InvalidRefreshTokenException, world1\<lparr>provider_calls := [''rt-1'']\<rparr>)
   \<and> refreshGoogleAccessToken provider_invalid_env stored_token 1 world1
     = (Inl InvalidRefreshTokenException, world1\<lparr>provider_calls := [''rt-1'']\<rparr>)
   \<and> refreshGoogleAccessToken_try provider_down_env stored_token 1 world1
     = (Inl (OtherError ''ECONNRESET''), world1\<lparr>provider_calls := [''rt-1'']\<rparr>)
   \<and> refreshGoogleAccessToken provider_down_env stored_token 1 world1
     = (Inl UnexpectedErrorWhenRefreshingAccessTokenException,
        world1\<lparr>provider_calls := [''rt-1'']\<rparr>)
   \<and> \<not> now quiet_env > expires_on stored_token
   \<and> no_access_token (googleClient_refresh quiet_env (token stored_token))
   \<and> fst (refreshGoogleAccessToken quiet_env stored_token 1 world1)
       = Inl UnexpectedErrorWhenRefreshingAccessTokenException"
proof -
  have invalid: "refreshGoogleAccessToken_try provider_invalid_env stored_token 1 world1
     = (Inl InvalidRefreshTokenException, world1\<lparr>provider_calls := [''rt-1'']\<rparr>)"
    by (simp add: service_defs io_defs scenario_defs provider_invalid_env_def)
  have down: "refreshGoogleAccessToken_try provider_down_env stored_token 1 world1
     = (Inl (OtherError ''ECONNRESET''), world1\<lparr>provider_calls := [''rt-1'']\<rparr>)"
    by (simp add: service_defs io_defs scenario_defs provider_down_env_def)
  have fresh: "\<not> now quiet_env > expires_on stored_token"
    by (simp add: quiet_env_def stored_token_def)
  have missing: "no_access_token (googleClient_refresh quiet_env (token stored_token))"
    by (simp add: no_access_token_def quiet_env_def)
  note kinds = refresh_exception_kinds [of provider_invalid_env stored_token 1 world1]
    refresh_exception_kinds [of provider_down_env stored_token 1 world1]
    refresh_exception_kinds [of quiet_env stored_token 1 world1]
  from kinds(1) invalid
  have a: "refreshGoogleAccessToken provider_invalid_env stored_token 1 world1
     = (Inl InvalidRefreshTokenException, world1\<lparr>provider_calls := [''rt-1'']\<rparr>)"
    by (simp add: allow_list_def)
  from kinds(2) down
  have b: "refreshGoogleAccessToken provider_down_env stored_token 1 world1
     = (Inl UnexpectedErrorWhenRefreshingAccessTokenException,
        world1\<lparr>provider_calls := [''rt-1'']\<rparr>)"
    by (simp add: allow_list_def)
  from kinds(3) fresh missing
  have c: "fst (refreshGoogleAccessToken quiet_env stored_token 1 world1)
       = Inl UnexpectedErrorWhenRefreshingAccessTokenException"
    by blast
  from invalid a down b fresh missing c show ?thesis by simp
qed

subsection \<open>\<open>refreshGoogleAccessToken\<close>: a failing provider changes nothing\<close>

text \<open>
  C9. On a token that has not expired, the first thing \<open>refreshGoogleAccessToken\<close> does is
  the provider's refresh. If that call throws, or answers without an access token, the call
  ends in an exception and the only trace it leaves is the provider call itself: the
  refresh-token table is as it was, so no token is deactivated, no last-used timestamp is
  written, and the active token stays active.
\<close>

theorem refresh_provider_failure_keeps_tokens:
  assumes fresh: "\<not> now E > expires_on refreshToken"
    and failed: "(\<exists>e. googleClient_refresh E (token refreshToken) = Inl e)
                 \<or> no_access_token (googleClient_refresh E (token refreshToken))"
  shows "\<exists>e. refreshGoogleAccessToken E refreshToken userId w =
           (Inl e, w\<lparr>provider_calls := provider_calls w @ [token refreshToken]\<rparr>)"
  using failed
proof
  assume "\<exists>e. googleClient_refresh E (token refreshToken) = Inl e"
  then obtain e where "googleClient_refresh E (token refreshToken) = Inl e" ..
  from catch_cases [OF try_provider_throws [OF fresh this]] show ?thesis by blast
next
  assume "no_access_token (googleClient_refresh E (token refreshToken))"
  from catch_cases [OF try_no_access_token [OF fresh this]] show ?thesis by blast
qed

theorem refresh_provider_failure_keeps_tokens_witness:
  "\<not> now provider_down_env > expires_on stored_token
   \<and> googleClient_refresh provider_down_env (token stored_token) = Inl (OtherError ''ECONNRESET'')
   \<and> fst (refreshGoogleAccessToken provider_down_env stored_token 1 world1)
       = Inl UnexpectedErrorWhenRefreshingAccessTokenException
   \<and> refresh_tokens (snd (refreshGoogleAccessToken provider_down_env stored_token 1 world1))
       = [stored_token]
   \<and> active_tokens 1 (snd (refreshGoogleAccessToken provider_down_env stored_token 1 world1))
       = [stored_token]"
proof -
  have fresh: "\<not> now provider_down_env > expires_on stored_token"
    by (simp add: provider_down_env_def quiet_env_def stored_token_def)
  have thrown: "googleClient_refresh provider_down_env (token stored_token)
      = Inl (OtherError ''ECONNRESET'')"
    by (simp add: provider_down_env_def quiet_env_def)
  then have failed: "(\<exists>e. googleClient_refresh provider_down_env (token stored_token) = Inl e)
      \<or> no_access_token (googleClient_refresh provider_down_env (token stored_token))"
    by simp
  from refresh_provider_failure_keeps_tokens [OF fresh failed, of 1 world1]
  obtain e where run: "refreshGoogleAccessToken provider_down_env stored_token 1 world1 =
      (Inl e, world1\<lparr>provider_calls := provider_calls world1 @ [token stored_token]\<rparr>)"
    by blast
  have kind: "fst (refreshGoogleAccessToken provider_down_env stored_token 1 world1)
       = Inl UnexpectedErrorWhenRefreshingAccessTokenException"
    by (simp add: service_defs io_defs scenario_defs provider_down_env_def)
  have rows: "refresh_tokens world1 = [stored_token]"
    by (simp add: world1_def world0_def)
  have act: "active_tokens 1 world1 = [stored_token]"
    by (simp add: active_tokens_def world1_def world0_def stored_token_def)
  from act have act': "active_tokens 1
      (world1\<lparr>provider_calls := provider_calls world1 @ [token stored_token]\<rparr>) = [stored_token]"
    by (simp add: active_tokens_def)
  from fresh thrown kind run rows act' show ?thesis by simp
qed


subsection \<open>\<open>refreshGoogleAccessToken\<close>: the successful refresh\<close>

lemma refresh_try_success:
  assumes "refreshGoogleAccessToken_try E refreshToken userId w = (Inr res, w')"
  shows "\<exists>ts user.
           googleClient_refresh E (token refreshToken) = Inr (Some ts)
         \<and> fst (getUserByEmail (map_option payload_email (jwtService_decode E (id_token ts))) w)
             = Some user
         \<and> tokens_refreshToken res = (if truthy (refresh_token ts) then refresh_token ts else None)
         \<and> refresh_tokens w' =
             (if truthy (refresh_token ts)
              then rotated E w refreshToken user (the (refresh_token ts))
              else map (touch E (token refreshToken)) (refresh_tokens w))"
  using assms
  by (auto simp: refreshGoogleAccessToken_try_def io_defs store_defs googleClient_refresh_call_def
      generateJwtToken_def Let_def new_token_row_def rotated_def fresh_token_id_def comp_def
      rt_id_deactivate rt_id_touch
      split: if_splits sum.splits option.splits prod.splits)

text \<open>
  C4. When \<open>refreshGoogleAccessToken\<close> returns, the provider had answered with a token set
  and the user named by its id token was found, and: the rows holding the token that was
  used carry the current time as last-used timestamp; if the answer has a new refresh
  token, every earlier row of that user is deactivated, a row for the new token is
  appended and is the user's only active one, and the new token is the result's
  \<open>refreshToken\<close>; if the answer has no new refresh token, the result's \<open>refreshToken\<close>
  is absent, no row is added or deactivated, and each user's active tokens are the ones
  that were active before.
\<close>

theorem refresh_success:
  assumes run: "refreshGoogleAccessToken E refreshToken userId w = (Inr res, w')"
  shows "\<exists>ts user.
           googleClient_refresh E (token refreshToken) = Inr (Some ts)
         \<and> fst (getUserByEmail (map_option payload_email (jwtService_decode E (id_token ts))) w)
             = Some user
         \<and> map last_used_on (take (length (refresh_tokens w)) (refresh_tokens w'))
             = map (\<lambda>r. if token r = token refreshToken then Some (now E) else last_used_on r)
                 (refresh_tokens w)
         \<and> (truthy (refresh_token ts) \<longrightarrow>
               tokens_refreshToken res = refresh_token ts
             \<and> refresh_tokens w' = rotated E w refreshToken user (the (refresh_token ts))
             \<and> active_tokens (user_id user) w' = [last (refresh_tokens w')]
             \<and> token (last (refresh_tokens w')) = the (refresh_token ts))
         \<and> (\<not> truthy (refresh_token ts) \<longrightarrow>
               tokens_refreshToken res = None
             \<and> refresh_tokens w' = map (touch E (token refreshToken)) (refresh_tokens w)
             \<and> map is_active (refresh_tokens w') = map is_active (refresh_tokens w)
             \<and> (\<forall>u. active_tokens u w' = map (touch E (token refreshToken)) (active_tokens u w)))"
proof -
  from run have body: "refreshGoogleAccessToken_try E refreshToken userId w = (Inr res, w')"
    by (auto simp: refreshGoogleAccessToken_def refreshGoogleAccessToken_catch_def try_catch_def
        throw_def split: sum.splits prod.splits if_splits)
  from refresh_try_success [OF body] obtain ts user where
    answer: "googleClient_refresh E (token refreshToken) = Inr (Some ts)"
    and found: "fst (getUserByEmail (map_option payload_email (jwtService_decode E (id_token ts))) w)
             = Some user"
    and field: "tokens_refreshToken res = (if truthy (refresh_token ts) then refresh_token ts else None)"
    and rows: "refresh_tokens w' =
             (if truthy (refresh_token ts)
              then rotated E w refreshToken user (the (refresh_token ts))
              else map (touch E (token refreshToken)) (refresh_tokens w))"
    by blast
  have used: "map last_used_on (take (length (refresh_tokens w)) (refresh_tokens w'))
             = map (\<lambda>r. if token r = token refreshToken then Some (now E) else last_used_on r)
                 (refresh_tokens w)"
    using rows by (auto simp: rotated_def touch_def deactivate_def)
  have rot: "active_tokens (user_id user) w' = [last (refresh_tokens w')]
             \<and> token (last (refresh_tokens w')) = the (refresh_token ts)"
    if "truthy (refresh_token ts)"
  proof -
    from that rows have "refresh_tokens w' =
        map (deactivate (user_id user)) (map (touch E (token refreshToken)) (refresh_tokens w))
        @ [\<lparr>rt_id = fresh_token_id w, rt_user_id = user_id user,
            token = the (refresh_token ts), rt_method = GoogleSSO,
            expires_on = now E + refresh_token_lifetime E,
            last_used_on = None, is_active = True\<rparr>]"
      by (simp only: rotated_def if_True)
    from sole_active_after_rotation [OF this] show ?thesis by simp
  qed
  have keep: "map is_active (refresh_tokens w') = map is_active (refresh_tokens w)
             \<and> (\<forall>u. active_tokens u w' = map (touch E (token refreshToken)) (active_tokens u w))"
    if "\<not> truthy (refresh_token ts)"
    using that rows by (auto simp: active_tokens_def active_after_touch touch_def)
  from answer found field rows used rot keep show ?thesis
    by (intro exI [of _ ts] exI [of _ user]) simp
qed

theorem refresh_success_witness:
  "refreshGoogleAccessToken rotating_env stored_token 1 world1 =
     (Inr \<lparr>tokens_accessToken = ''jwt'', tokens_refreshToken = Some ''rt-2''\<rparr>,
      world1\<lparr>refresh_tokens :=
          [stored_token\<lparr>last_used_on := Some 50, is_active := False\<rparr>,
           \<lparr>rt_id = 2, rt_user_id = 1, token = ''rt-2'', rt_method = GoogleSSO,
            expires_on = 1050, last_used_on = None, is_active = True\<rparr>],
        provider_calls := [''rt-1'']\<rparr>)
   \<and> refreshGoogleAccessToken keeping_env stored_token 1 world1 =
     (Inr \<lparr>tokens_accessToken = ''jwt'', tokens_refreshToken = None\<rparr>,
      world1\<lparr>refresh_tokens := [stored_token\<lparr>last_used_on := Some 50\<rparr>],
        provider_calls := [''rt-1'']\<rparr>)
   \<and> active_tokens 1 (snd (refreshGoogleAccessToken keeping_env stored_token 1 world1))
       = [stored_token\<lparr>last_used_on := Some 50\<rparr>]"
proof -
  have rotate: "refreshGoogleAccessToken rotating_env stored_token 1 world1 =
     (Inr \<lparr>tokens_accessToken = ''jwt'', tokens_refreshToken = Some ''rt-2''\<rparr>,
      world1\<lparr>refresh_tokens :=
          [stored_token\<lparr>last_used_on := Some 50, is_active := False\<rparr>,
           \<lparr>rt_id = 2, rt_user_id = 1, token = ''rt-2'', rt_method = GoogleSSO,
            expires_on = 1050, last_used_on = None, is_active = True\<rparr>],
        provider_calls := [''rt-1'']\<rparr>)"
    by (simp add: service_defs io_defs store_defs scenario_defs rotating_env_def
        touch_def deactivate_def)
  have keep: "refreshGoogleAccessToken keeping_env stored_token 1 world1 =
     (Inr \<lparr>tokens_accessToken = ''jwt'', tokens_refreshToken = None\<rparr>,
      world1\<lparr>refresh_tokens := [stored_token\<lparr>last_used_on := Some 50\<rparr>],
        provider_calls := [''rt-1'']\<rparr>)"
    by (simp add: service_defs io_defs store_defs scenario_defs keeping_env_def
        touch_def deactivate_def)
  have answer: "googleClient_refresh keeping_env (token stored_token)
      = Inr (Some \<lparr>access_token = Some ''at'', refresh_token = None, id_token = Some ''id-alice''\<rparr>)"
    by (simp add: keeping_env_def quiet_env_def)
  have before: "active_tokens 1 world1 = [stored_token]"
    by (simp add: active_tokens_def world1_def world0_def stored_token_def)
  have touched: "touch keeping_env (token stored_token) stored_token
      = stored_token\<lparr>last_used_on := Some 50\<rparr>"
    by (simp add: touch_def keeping_env_def quiet_env_def)
  from refresh_success [OF keep] answer
  have "active_tokens 1
          (world1\<lparr>refresh_tokens := [stored_token\<lparr>last_used_on := Some 50\<rparr>],
             provider_calls := [''rt-1'']\<rparr>)
        = map (touch keeping_env (token stored_token)) (active_tokens 1 world1)"
    by auto
  with before touched rotate keep show ?thesis by simp
qed

subsection \<open>\<open>googleLogin\<close>: one active refresh token\<close>

lemma googleLogin_user_success:
  assumes "googleLogin_user E user g rt info w = (Inr jwt, w')"
  shows "users w' = users w
       \<and> refresh_tokens w' =
           (if rt \<noteq> [] then map (deactivate (user_id user)) (refresh_tokens w)
                               @ [new_token_row E w (user_id user) rt GoogleSSO]
            else refresh_tokens w)
       \<and> verified w' =
           (if \<not> verified w (user_id user) \<and> emailVerified g
            then (verified w)(user_id user := True) else verified w)
       \<and> verification_emails w' = verification_emails w"
  using assms
  by (auto simp: googleLogin_user_def createGoogleSso_def generateJwtToken_def io_defs store_defs
      Let_def new_token_row_def fresh_token_id_def comp_def rt_id_deactivate
      split: option.splits if_splits prod.splits sum.splits)

lemma googleLogin_success:
  assumes "googleLogin E g rt info w = (Inr jwt, w')"
  shows "\<exists>user. find (\<lambda>u. user_email u = email g) (users w) = Some user
       \<and> googleLogin_user E user g rt info w = (Inr jwt, w')"
  using assms
  by (auto simp: googleLogin_def googleLogin_try_def io_defs store_defs
      split: option.splits if_splits prod.splits sum.splits)

text \<open>
  C7. Two \<open>googleLogin\<close> calls in sequence for the same user, with two different non-empty
  refresh tokens, both returning: after the first the user's only active refresh token is
  the first token, after the second it is the second token. Each login deactivates all
  rows of the user and then appends the row of the token it was given.
\<close>

theorem two_logins_one_active_token:
  assumes tokens: "rt1 \<noteq> []" "rt2 \<noteq> []" "rt1 \<noteq> rt2"
    and same_user: "email g2 = email g1"
    and first: "googleLogin E1 g1 rt1 info1 w = (Inr jwt1, w1)"
    and second: "googleLogin E2 g2 rt2 info2 w1 = (Inr jwt2, w2)"
  shows "\<exists>user. find (\<lambda>u. user_email u = email g1) (users w) = Some user
       \<and> refresh_tokens w1 = map (deactivate (user_id user)) (refresh_tokens w)
                               @ [new_token_row E1 w (user_id user) rt1 GoogleSSO]
       \<and> active_tokens (user_id user) w1 = [last (refresh_tokens w1)]
       \<and> token (last (refresh_tokens w1)) = rt1
       \<and> refresh_tokens w2 = map (deactivate (user_id user)) (refresh_tokens w1)
                               @ [new_token_row E2 w1 (user_id user) rt2 GoogleSSO]
       \<and> active_tokens (user_id user) w2 = [last (refresh_tokens w2)]
       \<and> token (last (refresh_tokens w2)) = rt2
       \<and> rt_user_id (last (refresh_tokens w2)) = user_id user
       \<and> rt_method (last (refresh_tokens w2)) = GoogleSSO"
proof -
  from googleLogin_success [OF first] obtain user where
    u1: "find (\<lambda>u. user_email u = email g1) (users w) = Some user"
    and b1: "googleLogin_user E1 user g1 rt1 info1 w = (Inr jwt1, w1)"
    by blast
  note s1 = googleLogin_user_success [OF b1]
  from googleLogin_success [OF second] same_user s1 u1
  have b2: "googleLogin_user E2 user g2 rt2 info2 w1 = (Inr jwt2, w2)"
    by auto
  note s2 = googleLogin_user_success [OF b2]
  from s1 tokens(1)
  have r1: "refresh_tokens w1 = map (deactivate (user_id user)) (refresh_tokens w)
              @ [new_token_row E1 w (user_id user) rt1 GoogleSSO]"
    by simp
  from s2 tokens(2)
  have r2: "refresh_tokens w2 = map (deactivate (user_id user)) (refresh_tokens w1)
              @ [new_token_row E2 w1 (user_id user) rt2 GoogleSSO]"
    by simp
  have a1: "active_tokens (user_id user) w1 = [new_token_row E1 w (user_id user) rt1 GoogleSSO]
            \<and> last (refresh_tokens w1) = new_token_row E1 w (user_id user) rt1 GoogleSSO"
    by (rule sole_active_after_rotation [OF r1]) (simp_all add: new_token_row_def)
  have a2: "active_tokens (user_id user) w2 = [new_token_row E2 w1 (user_id user) rt2 GoogleSSO]
            \<and> last (refresh_tokens w2) = new_token_row E2 w1 (user_id user) rt2 GoogleSSO"
    by (rule sole_active_after_rotation [OF r2]) (simp_all add: new_token_row_def)
  have fields: "token (new_token_row E1 w (user_id user) rt1 GoogleSSO) = rt1"
    "token (new_token_row E2 w1 (user_id user) rt2 GoogleSSO) = rt2"
    "rt_user_id (new_token_row E2 w1 (user_id user) rt2 GoogleSSO) = user_id user"
    "rt_method (new_token_row E2 w1 (user_id user) rt2 GoogleSSO) = GoogleSSO"
    by (simp_all add: new_token_row_def)
  from a1 a2 u1 r1 r2 fields show ?thesis
    by (intro exI [of _ user]) (simp only: simp_thms)
qed

theorem two_logins_one_active_token_witness:
  "fst (googleLogin quiet_env alice_google ''rt-1'' ''10.0.0.1'' world0) = Inr ''jwt''
   \<and> fst (googleLogin quiet_env alice_google ''rt-2'' ''10.0.0.1''
            (snd (googleLogin quiet_env alice_google ''rt-1'' ''10.0.0.1'' world0))) = Inr ''jwt''
   \<and> map token (active_tokens 1
        (snd (googleLogin quiet_env alice_google ''rt-2'' ''10.0.0.1''
               (snd (googleLogin quiet_env alice_google ''rt-1'' ''10.0.0.1'' world0)))))
       = [''rt-2'']"
proof -
  obtain w1 where w1: "w1 = snd (googleLogin quiet_env alice_google ''rt-1'' ''10.0.0.1'' world0)"
    by simp
  have e1: "fst (googleLogin quiet_env alice_google ''rt-1'' ''10.0.0.1'' world0) = Inr ''jwt''"
    by (simp add: service_defs io_defs store_defs scenario_defs)
  with w1 have run1: "googleLogin quiet_env alice_google ''rt-1'' ''10.0.0.1'' world0 = (Inr ''jwt'', w1)"
    by (simp add: prod_eq_iff)
  obtain w2 where w2: "w2 = snd (googleLogin quiet_env alice_google ''rt-2'' ''10.0.0.1'' w1)"
    by simp
  have e2: "fst (googleLogin quiet_env alice_google ''rt-2'' ''10.0.0.1'' w1) = Inr ''jwt''"
    unfolding w1
    by (simp add: service_defs io_defs store_defs scenario_defs deactivate_def)
  with w2 have run2: "googleLogin quiet_env alice_google ''rt-2'' ''10.0.0.1'' w1 = (Inr ''jwt'', w2)"
    by (simp add: prod_eq_iff)
  have found: "find (\<lambda>u. user_email u = email alice_google) (users world0) = Some alice"
    by (simp add: world0_def alice_def alice_google_def)
  have "''rt-1'' \<noteq> []" "''rt-2'' \<noteq> []" "''rt-1'' \<noteq> ''rt-2''" "email alice_google = email alice_google"
    by simp_all
  from two_logins_one_active_token [OF this run1 run2] found
  have "active_tokens (user_id alice) w2 = [last (refresh_tokens w2)]
        \<and> token (last (refresh_tokens w2)) = ''rt-2''"
    by auto
  then have "map token (active_tokens 1 w2) = [''rt-2'']"
    by (simp add: alice_def)
  with e1 e2 w1 w2 show ?thesis by simp
qed

subsection \<open>Email verification\<close>

lemma googleLogin_user_verified_mono:
  assumes "googleLogin_user E user g rt info w = (r, w')"
  shows "verification_emails w' = verification_emails w \<and> (verified w u \<longrightarrow> verified w' u)"
  using assms
  by (auto simp: googleLogin_user_def createGoogleSso_def generateJwtToken_def io_defs store_defs
      Let_def split: option.splits if_splits prod.splits sum.splits)

lemma googleLogin_verified_mono:
  "verification_emails (snd (googleLogin E g rt info w)) = verification_emails w
   \<and> (verified w u \<longrightarrow> verified (snd (googleLogin E g rt info w)) u)"
proof (cases "faults E (GetUserByEmail (Some (email g)))")
  case (Some e)
  then show ?thesis
    by (auto simp: googleLogin_def googleLogin_try_def io_defs store_defs split: option.splits)
next
  case None
  show ?thesis
  proof (cases "find (\<lambda>u. user_email u = email g) (users w)")
    case nobody: None
    with None show ?thesis
      by (auto simp: googleLogin_def googleLogin_try_def io_defs store_defs split: option.splits)
  next
    case (Some user)
    obtain r1 w1 where body: "googleLogin_user E user g rt info w = (r1, w1)"
      by (cases "googleLogin_user E user g rt info w")
    from googleLogin_user_verified_mono [OF body, of u] None Some body show ?thesis
      by (cases r1) (auto simp: googleLogin_def googleLogin_try_def io_defs store_defs
          split: option.splits)
  qed
qed

lemma and_then_InrE:
  assumes "and_then m f w = (Inr y, w')"
  obtains x w1 where "m w = (Inr x, w1)" and "f x w1 = (Inr y, w')"
  using assms by (auto simp: and_then_def split: prod.splits sum.splits)

lemma await_InrE:
  assumes "await E c op w = (Inr x, w')"
  obtains "faults E c = None" and "op w = (x, w')"
  using assms by (auto simp: await_def split: option.splits prod.splits)

lemma and_then_Inr_iff:
  "and_then m f w = (Inr y, w') \<longleftrightarrow> (\<exists>x w1. m w = (Inr x, w1) \<and> f x w1 = (Inr y, w'))"
  by (auto simp: and_then_def split: prod.splits sum.splits)

lemma await_Inr_iff:
  "await E c op w = (Inr x, w') \<longleftrightarrow> faults E c = None \<and> op w = (x, w')"
  by (auto simp: await_def split: option.splits prod.splits)

lemma ret_Inr_iff: "ret x w = (Inr y, w') \<longleftrightarrow> x = y \<and> w = w'"
  by (auto simp: ret_def)

lemma createGoogleSsoUser_payload_success:
  assumes "createGoogleSsoUser_payload E rt info ts p w = (Inr toks, w1)"
  shows "users w1 = users w @ [\<lparr>user_id = fresh_user_id w, user_email = payload_email p\<rparr>]
       \<and> verified w1 = (verified w)(fresh_user_id w := email_verified p)
       \<and> verification_emails w1 =
           (if email_verified p then verification_emails w
            else verification_emails w @ [fresh_user_id w])"
proof (cases "email_verified p")
  case True
  with assms show ?thesis
    by (simp add: createGoogleSsoUser_payload_def createGoogleSso_def generateJwtToken_def
        Let_def and_then_Inr_iff await_Inr_iff ret_Inr_iff store_defs)
       (auto simp: fun_eq_iff)
next
  case False
  with assms show ?thesis
    by (simp add: createGoogleSsoUser_payload_def createGoogleSso_def generateJwtToken_def
        Let_def and_then_Inr_iff await_Inr_iff ret_Inr_iff store_defs)
       (auto simp: fun_eq_iff)
qed

lemma createGoogleSsoUser_success:
  assumes "createGoogleSsoUser E rt info w = (Inr toks, w1)"
  shows "\<exists>ts p. googleClient_refresh E rt = Inr (Some ts)
       \<and> jwtService_decode E (id_token ts) = Some p
       \<and> users w1 = users w @ [\<lparr>user_id = fresh_user_id w, user_email = payload_email p\<rparr>]
       \<and> verified w1 = (verified w)(fresh_user_id w := email_verified p)
       \<and> verification_emails w1 =
           (if email_verified p then verification_emails w
            else verification_emails w @ [fresh_user_id w])"
proof -
  from assms obtain answer w0 where
    call: "googleClient_refresh_call E rt w = (Inr answer, w0)"
    and rest: "(case answer of None \<Rightarrow> throw TypeError
       | Some ts \<Rightarrow>
           (case jwtService_decode E (id_token ts) of None \<Rightarrow> throw TypeError
            | Some p \<Rightarrow> createGoogleSsoUser_payload E rt info ts p)) w0 = (Inr toks, w1)"
    unfolding createGoogleSsoUser_def by (elim and_then_InrE)
  from rest obtain ts p where ts: "answer = Some ts"
    and p: "jwtService_decode E (id_token ts) = Some p"
    and body: "createGoogleSsoUser_payload E rt info ts p w0 = (Inr toks, w1)"
    by (auto simp: throw_def split: option.splits)
  from call ts have answer: "googleClient_refresh E rt = Inr (Some ts)"
    and w0: "w0 = w\<lparr>provider_calls := provider_calls w @ [rt]\<rparr>"
    by (auto simp: googleClient_refresh_call_def)
  from createGoogleSsoUser_payload_success [OF body] w0 answer p show ?thesis
    by (auto simp: fresh_user_id_def)
qed

text \<open>
  C6 (as amended). A \<open>googleLogin\<close> that returns changes the verification flag of the
  user it logs in, and of nobody else, in one case only: the user is unverified and the
  provider asserts the address verified; then the user is marked verified. With
  \<open>emailVerified\<close> false the flags are as before, so the user is not marked verified. No
  \<open>googleLogin\<close>, whatever the provider says and however it ends, dispatches a
  verification email or takes a verified user back to unverified. The verification email
  belongs to registration: a \<open>createGoogleSsoUser\<close> that returns has given the new user
  the provider's \<open>email_verified\<close> as flag, and has dispatched one verification email to
  them exactly when that flag is false.
\<close>

theorem verification_trust_one_way:
  assumes login: "googleLogin E g rt info w = (Inr jwt, w')"
  shows "(\<exists>user. find (\<lambda>u. user_email u = email g) (users w) = Some user
           \<and> verified w' =
               (if \<not> verified w (user_id user) \<and> emailVerified g
                then (verified w)(user_id user := True) else verified w))
       \<and> verification_emails w' = verification_emails w
       \<and> (\<forall>E0 g0 rt0 info0 w0.
            verification_emails (snd (googleLogin E0 g0 rt0 info0 w0)) = verification_emails w0
          \<and> (\<forall>u. verified w0 u \<longrightarrow> verified (snd (googleLogin E0 g0 rt0 info0 w0)) u))
       \<and> (\<forall>E1 rt1 info1 w0 toks w1.
            createGoogleSsoUser E1 rt1 info1 w0 = (Inr toks, w1) \<longrightarrow>
            (\<exists>ts p. googleClient_refresh E1 rt1 = Inr (Some ts)
               \<and> jwtService_decode E1 (id_token ts) = Some p
               \<and> users w1 = users w0
                    @ [\<lparr>user_id = fresh_user_id w0, user_email = payload_email p\<rparr>]
               \<and> verified w1 = (verified w0)(fresh_user_id w0 := email_verified p)
               \<and> verification_emails w1 =
                   (if email_verified p then verification_emails w0
                    else verification_emails w0 @ [fresh_user_id w0])))"
proof -
  from googleLogin_success [OF login] obtain user where
    found: "find (\<lambda>u. user_email u = email g) (users w) = Some user"
    and body: "googleLogin_user E user g rt info w = (Inr jwt, w')"
    by blast
  from googleLogin_user_success [OF body]
  have flags: "verified w' =
               (if \<not> verified w (user_id user) \<and> emailVerified g
                then (verified w)(user_id user := True) else verified w)"
    and mails: "verification_emails w' = verification_emails w"
    by simp_all
  from found flags
  have a: "\<exists>user. find (\<lambda>u. user_email u = email g) (users w) = Some user
           \<and> verified w' =
               (if \<not> verified w (user_id user) \<and> emailVerified g
                then (verified w)(user_id user := True) else verified w)"
    by blast
  have b: "\<forall>E0 g0 rt0 info0 w0.
            verification_emails (snd (googleLogin E0 g0 rt0 info0 w0)) = verification_emails w0
          \<and> (\<forall>u. verified w0 u \<longrightarrow> verified (snd (googleLogin E0 g0 rt0 info0 w0)) u)"
    by (intro allI conjI impI) (simp_all add: googleLogin_verified_mono)
  have c: "\<forall>E1 rt1 info1 w0 toks w1.
            createGoogleSsoUser E1 rt1 info1 w0 = (Inr toks, w1) \<longrightarrow>
            (\<exists>ts p. googleClient_refresh E1 rt1 = Inr (Some ts)
               \<and> jwtService_decode E1 (id_token ts) = Some p
               \<and> users w1 = users w0
                    @ [\<lparr>user_id = fresh_user_id w0, user_email = payload_email p\<rparr>]
               \<and> verified w1 = (verified w0)(fresh_user_id w0 := email_verified p)
               \<and> verification_emails w1 =
                   (if email_verified p then verification_emails w0
                    else verification_emails w0 @ [fresh_user_id w0]))"
    by (intro allI impI) (rule createGoogleSsoUser_success)
  from a mails b c show ?thesis
    by (intro conjI)
qed

theorem verification_trust_one_way_witness:
  "fst (googleLogin quiet_env alice_google ''rt-1'' ''10.0.0.1'' world0) = Inr ''jwt''
   \<and> \<not> verified world0 1
   \<and> verified (snd (googleLogin quiet_env alice_google ''rt-1'' ''10.0.0.1'' world0)) 1
   \<and> verification_emails (snd (googleLogin quiet_env alice_google ''rt-1'' ''10.0.0.1'' world0))
       = []
   \<and> fst (createGoogleSsoUser signup_env ''rt-b'' ''10.0.0.2'' world0)
       = Inr \<lparr>tokens_accessToken = ''jwt'', tokens_refreshToken = Some ''rt-b''\<rparr>
   \<and> \<not> verified (snd (createGoogleSsoUser signup_env ''rt-b'' ''10.0.0.2'' world0)) 2
   \<and> verification_emails (snd (createGoogleSsoUser signup_env ''rt-b'' ''10.0.0.2'' world0))
       = [2]"
proof -
  obtain w1 where w1: "w1 = snd (googleLogin quiet_env alice_google ''rt-1'' ''10.0.0.1'' world0)"
    by simp
  have e1: "fst (googleLogin quiet_env alice_google ''rt-1'' ''10.0.0.1'' world0) = Inr ''jwt''"
    by (simp add: service_defs io_defs store_defs scenario_defs)
  with w1 have login: "googleLogin quiet_env alice_google ''rt-1'' ''10.0.0.1'' world0
      = (Inr ''jwt'', w1)"
    by (simp add: prod_eq_iff)
  obtain w2 where w2: "w2 = snd (createGoogleSsoUser signup_env ''rt-b'' ''10.0.0.2'' world0)"
    by simp
  have e2: "fst (createGoogleSsoUser signup_env ''rt-b'' ''10.0.0.2'' world0)
     = Inr \<lparr>tokens_accessToken = ''jwt'', tokens_refreshToken = Some ''rt-b''\<rparr>"
    by (simp add: service_defs io_defs store_defs scenario_defs signup_env_def bob_token_set_def
        plainToClass_def)
  with w2 have reg: "createGoogleSsoUser signup_env ''rt-b'' ''10.0.0.2'' world0
     = (Inr \<lparr>tokens_accessToken = ''jwt'', tokens_refreshToken = Some ''rt-b''\<rparr>, w2)"
    by (simp add: prod_eq_iff)
  note th = verification_trust_one_way [OF login]
  have found: "find (\<lambda>u. user_email u = email alice_google) (users world0) = Some alice"
    by (simp add: world0_def alice_def alice_google_def)
  have before: "\<not> verified world0 1" "verification_emails world0 = []"
    "emailVerified alice_google" "user_id alice = 1"
    by (simp_all add: world0_def alice_google_def alice_def)
  from th found before
  have a: "verified w1 1" "verification_emails w1 = []"
    by auto
  from th reg obtain ts p where
    answer: "googleClient_refresh signup_env ''rt-b'' = Inr (Some ts)"
    and payload: "jwtService_decode signup_env (id_token ts) = Some p"
    and flag: "verified w2 = (verified world0)(fresh_user_id world0 := email_verified p)"
    and mails: "verification_emails w2 =
                   (if email_verified p then verification_emails world0
                    else verification_emails world0 @ [fresh_user_id world0])"
    by blast
  from answer have ts: "ts = bob_token_set"
    by (simp add: signup_env_def quiet_env_def)
  with payload have p: "p = bob_payload"
    by (simp add: signup_env_def quiet_env_def bob_token_set_def)
  have fresh: "fresh_user_id world0 = 2"
    by (simp add: fresh_user_id_def world0_def alice_def)
  from flag mails p fresh before
  have b: "\<not> verified w2 2" "verification_emails w2 = [2]"
    by (simp_all add: bob_payload_def)
  from e1 e2 w1 w2 a b before show ?thesis by simp
qed

text \<open>
  C6 as stated fails for a login: \<open>googleLogin\<close> of an existing, unverified user whose
  provider payload says the address is not verified returns normally, leaves the user
  unverified, and dispatches no verification email.
\<close>

theorem googleLogin_unverified_sends_no_email:
  "find (\<lambda>u. user_email u = email alice_google_unverified) (users world0) = Some alice
   \<and> \<not> emailVerified alice_google_unverified
   \<and> \<not> verified world0 (user_id alice)
   \<and> fst (googleLogin quiet_env alice_google_unverified ''rt-1'' ''10.0.0.1'' world0)
       = Inr ''jwt''
   \<and> \<not> verified
         (snd (googleLogin quiet_env alice_google_unverified ''rt-1'' ''10.0.0.1'' world0))
         (user_id alice)
   \<and> verification_emails
         (snd (googleLogin quiet_env alice_google_unverified ''rt-1'' ''10.0.0.1'' world0))
       = []"
  by (simp add: service_defs io_defs store_defs scenario_defs alice_google_unverified_def)

section \<open>Proofs: session-resolution middleware\<close>

lemmas response_defs = clear_session_def response_cookies_delete_def response_headers_delete_def
  response_cookies_set_def response_headers_set_def NextResponse_next_def

lemma clear_session_idem: "clear_session (clear_session r) = clear_session r"
  by (simp add: response_defs)

lemma clear_session_writes:
  "res_cookies (clear_session r) ''logged-user'' = Some DeleteCookie
   \<and> res_cookies (clear_session r) ''authToken'' = Some DeleteCookie
   \<and> res_headers (clear_session r) ''logged-user'' = None
   \<and> res_headers (clear_session r) ''authToken'' = None"
  by (simp add: response_defs)

lemma receive_clear:
  "receive clearSessionCookies jar = jar(''logged-user'' := None, ''authToken'' := None)"
  by (rule ext) (simp add: receive_def clearSessionCookies_def response_defs)

text \<open>
  C5 (as amended). When no session is cached and the fetch of the logged-in user reports
  no error (its error value is absent or falsy) but names no actor, the middleware answers
  with the response of \<open>clearSessionCookies\<close>: it asks for the \<open>logged-user\<close> and
  \<open>authToken\<close> cookies to be deleted and carries neither header. Clearing is idempotent,
  and on a browser that holds neither cookie it changes nothing. When the fetch fails with
  an error (a truthy error value) the middleware returns without a response: nothing is
  cleared.
\<close>

theorem middleware_clears_session_without_actor:
  assumes miss: "\<not> cookiesHasFetchedActor H request"
    and answer: "fetchLoggedInUserInfo H (request_cookie_header request) = (d, error)"
  shows "(\<not> truthy error \<and> resolved_actor d = None \<longrightarrow>
            response (authenticateUserMiddleware H request) = Some clearSessionCookies
          \<and> request_after (authenticateUserMiddleware H request) = request)
       \<and> (truthy error \<longrightarrow>
            response (authenticateUserMiddleware H request) = None
          \<and> request_after (authenticateUserMiddleware H request) = request)
       \<and> res_cookies clearSessionCookies ''logged-user'' = Some DeleteCookie
       \<and> res_cookies clearSessionCookies ''authToken'' = Some DeleteCookie
       \<and> res_headers clearSessionCookies ''logged-user'' = None
       \<and> res_headers clearSessionCookies ''authToken'' = None
       \<and> clear_session clearSessionCookies = clearSessionCookies
       \<and> receive clearSessionCookies (receive clearSessionCookies jar)
            = receive clearSessionCookies jar
       \<and> receive clearSessionCookies jar ''logged-user'' = None
       \<and> receive clearSessionCookies jar ''authToken'' = None
       \<and> (jar ''logged-user'' = None \<and> jar ''authToken'' = None \<longrightarrow>
            receive clearSessionCookies jar = jar)"
proof -
  have run: "(\<not> truthy error \<and> resolved_actor d = None \<longrightarrow>
            response (authenticateUserMiddleware H request) = Some clearSessionCookies
          \<and> request_after (authenticateUserMiddleware H request) = request)
       \<and> (truthy error \<longrightarrow>
            response (authenticateUserMiddleware H request) = None
          \<and> request_after (authenticateUserMiddleware H request) = request)"
    using miss answer by (simp add: authenticateUserMiddleware_def)
  have noop: "receive clearSessionCookies jar = jar"
    if "jar ''logged-user'' = None \<and> jar ''authToken'' = None"
    using that by (auto simp: receive_clear)
  from run noop clear_session_writes [of NextResponse_next]
    clear_session_idem [of NextResponse_next]
  show ?thesis
    by (simp add: clearSessionCookies_def [symmetric] receive_clear)
qed

theorem middleware_clears_session_without_actor_witness:
  "\<not> cookiesHasFetchedActor no_actor_helpers fresh_request
   \<and> fetchLoggedInUserInfo no_actor_helpers (request_cookie_header fresh_request)
       = (Some \<lparr>loggedUser = None\<rparr>, None)
   \<and> resolved_actor (Some \<lparr>loggedUser = None\<rparr>) = None
   \<and> response (authenticateUserMiddleware no_actor_helpers fresh_request)
       = Some clearSessionCookies
   \<and> fetchLoggedInUserInfo empty_error_helpers (request_cookie_header fresh_request)
       = (None, Some [])
   \<and> response (authenticateUserMiddleware empty_error_helpers fresh_request)
       = Some clearSessionCookies
   \<and> fetchLoggedInUserInfo session_helpers (request_cookie_header fresh_request)
       = (None, Some ''fetch failed'')
   \<and> response (authenticateUserMiddleware session_helpers fresh_request) = None
   \<and> receive clearSessionCookies [''logged-user'' \<mapsto> ''user'', ''theme'' \<mapsto> ''dark'']
       = [''theme'' \<mapsto> ''dark'']"
proof -
  have miss: "\<not> cookiesHasFetchedActor no_actor_helpers fresh_request"
    "\<not> cookiesHasFetchedActor empty_error_helpers fresh_request"
    "\<not> cookiesHasFetchedActor session_helpers fresh_request"
    by (simp_all add: cookiesHasFetchedActor_def no_actor_helpers_def empty_error_helpers_def
        session_helpers_def fresh_request_def)
  have answer: "fetchLoggedInUserInfo no_actor_helpers (request_cookie_header fresh_request)
       = (Some \<lparr>loggedUser = None\<rparr>, None)"
    by (simp add: no_actor_helpers_def session_helpers_def)
  have empty: "fetchLoggedInUserInfo empty_error_helpers (request_cookie_header fresh_request)
       = (None, Some [])"
    by (simp add: empty_error_helpers_def session_helpers_def)
  have failed: "fetchLoggedInUserInfo session_helpers (request_cookie_header fresh_request)
       = (None, Some ''fetch failed'')"
    by (simp add: session_helpers_def)
  have nobody: "resolved_actor (Some \<lparr>loggedUser = None\<rparr>) = None" "resolved_actor None = None"
    by (simp_all add: resolved_actor_def)
  from middleware_clears_session_without_actor [OF miss(1) answer] nobody
  have a: "response (authenticateUserMiddleware no_actor_helpers fresh_request)
       = Some clearSessionCookies"
    by simp
  from middleware_clears_session_without_actor [OF miss(2) empty] nobody
  have b: "response (authenticateUserMiddleware empty_error_helpers fresh_request)
       = Some clearSessionCookies"
    by simp
  from middleware_clears_session_without_actor [OF miss(3) failed]
  have c: "response (authenticateUserMiddleware session_helpers fresh_request) = None"
    by simp
  have jar: "receive clearSessionCookies [''logged-user'' \<mapsto> ''user'', ''theme'' \<mapsto> ''dark'']
       = [''theme'' \<mapsto> ''dark'']"
    by (rule ext) (simp add: receive_clear)
  from miss answer nobody a empty b failed c jar show ?thesis by simp
qed

text \<open>
  C5 as stated fails for the failing fetch: \<open>if (error) return;\<close> leaves the middleware
  before \<open>clearSessionCookies\<close>, so no response is produced and no cookie or header is
  cleared.
\<close>

theorem middleware_fetch_error_clears_nothing:
  "authenticateUserMiddleware session_helpers fresh_request
     = \<lparr>response = None, request_after = fresh_request, fetches = [[]]\<rparr>"
  by (simp add: authenticateUserMiddleware_def cookiesHasFetchedActor_def session_helpers_def
      fresh_request_def request_cookie_header_def)

text \<open>
  C8. \<open>cookiesHasFetchedActor\<close> holds exactly when there is one user-session cookie and
  the cookie named \<open>user-\<close> followed by that cookie's name has that cookie's value. When
  it holds the middleware returns at once: no response, the request untouched, no fetch.
  When it does not hold (no or several user-session cookies, a marker that is absent or
  differs) the middleware performs the fetch, once, with the request's cookie header.
\<close>

theorem cache_hit_iff:
  "(cookiesHasFetchedActor H request \<longleftrightarrow>
      (\<exists>c. getUserSessionCookies H request = [c]
           \<and> map_option cookie_value (cookies_get request (''user-'' @ cookie_name c))
               = Some (cookie_value c)))
   \<and> (cookiesHasFetchedActor H request \<longrightarrow>
        authenticateUserMiddleware H request
          = \<lparr>response = None, request_after = request, fetches = []\<rparr>)
   \<and> (\<not> cookiesHasFetchedActor H request \<longrightarrow>
        fetches (authenticateUserMiddleware H request) = [request_cookie_header request])"
proof (intro conjI)
  show "cookiesHasFetchedActor H request \<longleftrightarrow>
      (\<exists>c. getUserSessionCookies H request = [c]
           \<and> map_option cookie_value (cookies_get request (''user-'' @ cookie_name c))
               = Some (cookie_value c))"
    by (cases "getUserSessionCookies H request")
       (auto simp: cookiesHasFetchedActor_def Let_def)
  show "cookiesHasFetchedActor H request \<longrightarrow>
        authenticateUserMiddleware H request
          = \<lparr>response = None, request_after = request, fetches = []\<rparr>"
    by (simp add: authenticateUserMiddleware_def)
  show "\<not> cookiesHasFetchedActor H request \<longrightarrow>
        fetches (authenticateUserMiddleware H request) = [request_cookie_header request]"
    by (auto simp: authenticateUserMiddleware_def split: prod.splits option.splits)
qed

theorem cache_hit_iff_witness:
  "getUserSessionCookies session_helpers cached_request
     = [\<lparr>cookie_name = ''session-7'', cookie_value = ''abc''\<rparr>]
   \<and> cookiesHasFetchedActor session_helpers cached_request
   \<and> authenticateUserMiddleware session_helpers cached_request
       = \<lparr>response = None, request_after = cached_request, fetches = []\<rparr>
   \<and> \<not> cookiesHasFetchedActor session_helpers stale_request
   \<and> fetches (authenticateUserMiddleware session_helpers stale_request)
       = [''session-7=abc; user-session-7=old'']
   \<and> \<not> cookiesHasFetchedActor session_helpers fresh_request
   \<and> fetches (authenticateUserMiddleware session_helpers fresh_request) = [[]]"
proof -
  have one: "getUserSessionCookies session_helpers cached_request
     = [\<lparr>cookie_name = ''session-7'', cookie_value = ''abc''\<rparr>]"
    by (simp add: session_helpers_def cached_request_def)
  have marker: "map_option cookie_value
        (cookies_get cached_request
           (''user-'' @ cookie_name \<lparr>cookie_name = ''session-7'', cookie_value = ''abc''\<rparr>))
      = Some (cookie_value \<lparr>cookie_name = ''session-7'', cookie_value = ''abc''\<rparr>)"
    by (simp add: cookies_get_def cached_request_def)
  note hit = cache_hit_iff [of session_helpers cached_request]
  from hit one marker have cached: "cookiesHasFetchedActor session_helpers cached_request"
    by blast
  with hit have stop: "authenticateUserMiddleware session_helpers cached_request
       = \<lparr>response = None, request_after = cached_request, fetches = []\<rparr>"
    by blast
  have one': "getUserSessionCookies session_helpers stale_request
     = [\<lparr>cookie_name = ''session-7'', cookie_value = ''abc''\<rparr>]"
    by (simp add: session_helpers_def stale_request_def)
  have marker': "map_option cookie_value
        (cookies_get stale_request
           (''user-'' @ cookie_name \<lparr>cookie_name = ''session-7'', cookie_value = ''abc''\<rparr>))
      = Some ''old''"
    by (simp add: cookies_get_def stale_request_def)
  note miss = cache_hit_iff [of session_helpers stale_request]
  from miss one' marker' have stale: "\<not> cookiesHasFetchedActor session_helpers stale_request"
    by auto
  with miss have fetched: "fetches (authenticateUserMiddleware session_helpers stale_request)
       = [request_cookie_header stale_request]"
    by blast
  have none: "getUserSessionCookies session_helpers fresh_request = []"
    by (simp add: session_helpers_def fresh_request_def)
  note empty = cache_hit_iff [of session_helpers fresh_request]
  from empty none have fresh: "\<not> cookiesHasFetchedActor session_helpers fresh_request"
    by auto
  with empty have fetched': "fetches (authenticateUserMiddleware session_helpers fresh_request)
       = [request_cookie_header fresh_request]"
    by blast
  from one cached stop stale fetched fresh fetched' show ?thesis
    by (simp add: request_cookie_header_def stale_request_def fresh_request_def)
qed

section \<open>Proofs: GraphQL auth context\<close>

text \<open>
  C10. Every context that \<open>getAuthContext\<close> returns has exactly one of user and patient.
  On a request whose \<open>windowId\<close> parameter passes the schema (absent or a string): a
  request with a user yields a context with that user and no patient, also when a patient
  is attached; a request with only a patient yields a context with no user and that
  patient. A request with neither makes \<open>getAuthContext\<close> throw, with the message
  \<open>Either user or patient must be non-null.\<close> when the schema check passed.
\<close>

theorem auth_context_exactly_one_actor:
  "(\<forall>c. getAuthContext D ctx = Inr c \<longrightarrow> (ctx_user c = None) \<noteq> (ctx_patient c = None))
   \<and> (\<forall>u. connection_windowId (getContextRequest ctx) \<noteq> JsOther
           \<and> req_user (getContextRequest ctx) = Some u \<longrightarrow>
          (\<exists>c. getAuthContext D ctx = Inr c \<and> ctx_patient c = None
              \<and> map_option auth_entity (ctx_user c) = Some u))
   \<and> (\<forall>p. connection_windowId (getContextRequest ctx) \<noteq> JsOther
           \<and> req_user (getContextRequest ctx) = None
           \<and> req_patient (getContextRequest ctx) = Some p \<longrightarrow>
          (\<exists>c. getAuthContext D ctx = Inr c \<and> ctx_user c = None \<and> ctx_patient c = Some p))
   \<and> (req_user (getContextRequest ctx) = None \<and> req_patient (getContextRequest ctx) = None \<longrightarrow>
          (\<exists>e. getAuthContext D ctx = Inl e)
          \<and> (connection_windowId (getContextRequest ctx) \<noteq> JsOther \<longrightarrow>
               getAuthContext D ctx = Inl (Error ''Either user or patient must be non-null.'')))"
  by (cases "connection_windowId (getContextRequest ctx)")
     (auto simp: getAuthContext_def getExtendedRequestAuthContext_def parse_optional_string_def
        Let_def split: option.splits sum.splits)

theorem auth_context_exactly_one_actor_witness:
  "req_user both_request = Some doctor
   \<and> req_patient both_request = Some patient9
   \<and> getAuthContext role_deps0 (ExecutionContext both_request)
       = Inr \<lparr>ctx_lang = ''no'', ctx_pathname = [], ctx_windowId = None,
              ctx_user = Some \<lparr>auth_entity = doctor, auth_sessionId = ''s1'',
                               isCustomersAdmin_flag = False\<rparr>,
              ctx_patient = None\<rparr>
   \<and> getAuthContext role_deps0
        (ExecutionContext (both_request\<lparr>req_user := None\<rparr>))
       = Inr \<lparr>ctx_lang = ''no'', ctx_pathname = [], ctx_windowId = None,
              ctx_user = None, ctx_patient = Some patient9\<rparr>
   \<and> getAuthContext role_deps0
        (ExecutionContext (both_request\<lparr>req_user := None, req_patient := None\<rparr>))
       = Inl (Error ''Either user or patient must be non-null.'')"
proof -
  have user: "req_user both_request = Some doctor"
    and patient: "req_patient both_request = Some patient9"
    and window: "connection_windowId both_request \<noteq> JsOther"
    by (simp_all add: both_request_def)
  from auth_context_exactly_one_actor [of role_deps0 "ExecutionContext both_request"] user window
  obtain c where c: "getAuthContext role_deps0 (ExecutionContext both_request) = Inr c"
    "ctx_patient c = None" "map_option auth_entity (ctx_user c) = Some doctor"
    by auto
  have a: "getAuthContext role_deps0 (ExecutionContext both_request)
       = Inr \<lparr>ctx_lang = ''no'', ctx_pathname = [], ctx_windowId = None,
              ctx_user = Some \<lparr>auth_entity = doctor, auth_sessionId = ''s1'',
                               isCustomersAdmin_flag = False\<rparr>,
              ctx_patient = None\<rparr>"
    by (simp add: getAuthContext_def getExtendedRequestAuthContext_def
        parse_optional_string_def Let_def both_request_def getLang_def getPathname_def
        nullish_or_empty_def isCustomersAdmin_def role_deps0_def doctor_def)
  have b: "getAuthContext role_deps0
        (ExecutionContext (both_request\<lparr>req_user := None\<rparr>))
       = Inr \<lparr>ctx_lang = ''no'', ctx_pathname = [], ctx_windowId = None,
              ctx_user = None, ctx_patient = Some patient9\<rparr>"
    by (simp add: getAuthContext_def getExtendedRequestAuthContext_def
        parse_optional_string_def Let_def both_request_def getLang_def getPathname_def
        nullish_or_empty_def)
  from auth_context_exactly_one_actor
    [of role_deps0 "ExecutionContext (both_request\<lparr>req_user := None, req_patient := None\<rparr>)"]
    window
  have d: "getAuthContext role_deps0
        (ExecutionContext (both_request\<lparr>req_user := None, req_patient := None\<rparr>))
       = Inl (Error ''Either user or patient must be non-null.'')"
    by simp
  from user patient c a b d show ?thesis by simp
qed

end
